theory Spec2Isabelle
  imports Main "HOL-Library.Word"
begin

unbundle bit_operations_syntax

section \<open>Primitive types\<close>

text \<open>
  Modelled from the spec: the typedefs \<open>Byte\<close>, \<open>Byte_2\<close>, \<open>Address\<close> and \<open>Opcode\<close> are
  declared in headers that are not among the sources. The spec fixes bytes as 8-bit unsigned and
  addresses and register pairs as 16-bit unsigned; an opcode is one byte. Arithmetic on them
  wraps; where the source widens to \<open>int\<close> first (\<open>int result = target + value\<close>) the model
  reads the words with \<open>uint\<close> and computes on unbounded integers.
\<close>

type_synonym Byte = "8 word"
type_synonym Byte_2 = "16 word"
type_synonym Address = "16 word"
type_synonym Opcode = "8 word"

section \<open>Memory (memory.cpp)\<close>

text \<open>
  \<open>CART_ROM\<close> is a vector whose length is whatever \<open>load_rom\<close> read from the file (empty before
  any load), so it is a list and an index at or past its length is an out-of-bounds access.
  The five RAM vectors are allocated once, with fixed sizes, by the constructor and are never
  resized; each is a function from index to byte. Every index the code computes for them is masked
  below the size (lemmas \<open>idx_8k\<close> and \<open>idx_256\<close> below; the OAM index is used only for
  addresses below 0xFEA0).
\<close>

record Memory =
  CART_ROM :: "Byte list"
  WRAM :: "nat \<Rightarrow> Byte"
  ERAM :: "nat \<Rightarrow> Byte"
  ZRAM :: "nat \<Rightarrow> Byte"
  VRAM :: "nat \<Rightarrow> Byte"
  OAM :: "nat \<Rightarrow> Byte"

text \<open>\<open>CART_ROM[location]\<close>: \<open>std::vector::operator[]\<close> does no bounds check; an index at or past
  the length is undefined behaviour, which the model reports as \<open>None\<close>.\<close>

definition vector_at :: "Byte list \<Rightarrow> nat \<Rightarrow> Byte option" where
  "vector_at v i = (if i < length v then Some (v ! i) else None)"

text \<open>\<open>Memory::read\<close>. The outer switch is on \<open>location & 0xF000\<close>, the inner one on
  \<open>location & 0x0F00\<close>. Falling out of a switch without a \<open>return\<close> is the final \<open>None\<close>.\<close>

definition read :: "Memory \<Rightarrow> Address \<Rightarrow> Byte option" where
  "read m location =
    (let sel = location AND 0xF000 in
     if sel = 0x0000 \<or> sel = 0x1000 \<or> sel = 0x2000 \<or> sel = 0x3000
       then vector_at (CART_ROM m) (unat location)
     else if sel = 0x4000 \<or> sel = 0x5000 \<or> sel = 0x6000 \<or> sel = 0x7000
       then vector_at (CART_ROM m) (unat location)
     else if sel = 0x8000 \<or> sel = 0x9000
       then Some (VRAM m (unat (location AND 0x1FFF)))
     else if sel = 0xA000 \<or> sel = 0xB000
       then Some (ERAM m (unat (location AND 0x1FFF)))
     else if sel = 0xC000 \<or> sel = 0xD000 \<or> sel = 0xE000
       then Some (WRAM m (unat (location AND 0x1FFF)))
     else if sel = 0xF000 then
       (let sub = location AND 0x0F00 in
        if sub = 0x000 \<or> sub = 0x100 \<or> sub = 0x200 \<or> sub = 0x300 \<or>
           sub = 0x400 \<or> sub = 0x500 \<or> sub = 0x600 \<or> sub = 0x700 \<or>
           sub = 0x800 \<or> sub = 0x900 \<or> sub = 0xA00 \<or> sub = 0xB00 \<or>
           sub = 0xC00 \<or> sub = 0xD00
          then Some (WRAM m (unat (location AND 0x1FFF)))
        else if sub = 0xE00 then
          (if location < 0xFEA0 then Some (OAM m (unat (location AND 0xFF))) else Some 0)
        else if sub = 0xF00 then Some (ZRAM m (unat (location AND 0xFF)))
        else None)
     else None)"

text \<open>\<open>Memory::write\<close> (named \<open>write_mem\<close>: \<open>write\<close> is reserved). The two ROM cases
  only \<open>break\<close>; the unusable area above OAM returns without writing.\<close>

definition write_mem :: "Memory \<Rightarrow> Address \<Rightarrow> Byte \<Rightarrow> Memory" where
  "write_mem m location data =
    (let sel = location AND 0xF000 in
     if sel = 0x0000 \<or> sel = 0x1000 \<or> sel = 0x2000 \<or> sel = 0x3000 then m
     else if sel = 0x4000 \<or> sel = 0x5000 \<or> sel = 0x6000 \<or> sel = 0x7000 then m
     else if sel = 0x8000 \<or> sel = 0x9000
       then m\<lparr>VRAM := (VRAM m)(unat (location AND 0x1FFF) := data)\<rparr>
     else if sel = 0xA000 \<or> sel = 0xB000
       then m\<lparr>ERAM := (ERAM m)(unat (location AND 0x1FFF) := data)\<rparr>
     else if sel = 0xC000 \<or> sel = 0xD000 \<or> sel = 0xE000
       then m\<lparr>WRAM := (WRAM m)(unat (location AND 0x1FFF) := data)\<rparr>
     else if sel = 0xF000 then
       (let sub = location AND 0x0F00 in
        if sub = 0x000 \<or> sub = 0x100 \<or> sub = 0x200 \<or> sub = 0x300 \<or>
           sub = 0x400 \<or> sub = 0x500 \<or> sub = 0x600 \<or> sub = 0x700 \<or>
           sub = 0x800 \<or> sub = 0x900 \<or> sub = 0xA00 \<or> sub = 0xB00 \<or>
           sub = 0xC00 \<or> sub = 0xD00
          then m\<lparr>WRAM := (WRAM m)(unat (location AND 0x1FFF) := data)\<rparr>
        else if sub = 0xE00 then
          (if location < 0xFEA0 then m\<lparr>OAM := (OAM m)(unat (location AND 0xFF) := data)\<rparr>
           else m)
        else if sub = 0xF00 then m\<lparr>ZRAM := (ZRAM m)(unat (location AND 0xFF) := data)\<rparr>
        else m)
     else m)"

text \<open>\<open>Memory::Memory()\<close>: \<open>vector<Byte>(n)\<close> value-initialises every cell to zero; the
  registers set afterwards are cells of \<open>ZRAM\<close>. \<open>CART_ROM\<close> is default-constructed, hence empty.\<close>

definition Memory_init :: Memory where
  "Memory_init =
    \<lparr>CART_ROM = [],
     WRAM = (\<lambda>_. 0),
     ERAM = (\<lambda>_. 0),
     ZRAM = (\<lambda>_. 0)(0x05 := 0x00, 0x06 := 0x00, 0x07 := 0x00, 0x40 := 0x91, 0x42 := 0x00,
               0x43 := 0x00, 0x45 := 0x00, 0x47 := 0xFC, 0x48 := 0xFF, 0x49 := 0xFF,
               0x4A := 0x00, 0x4B := 0x00, 0xFF := 0x00),
     VRAM = (\<lambda>_. 0),
     OAM = (\<lambda>_. 0)\<rparr>"

section \<open>CPU (cpu.cpp)\<close>

text \<open>
  There is one CPU, one Memory and one Emulator object, and the CPU works on the Emulator's
  memory, so the register file, the memory and the Emulator's cycle counters are the fields of one
  record. The \<open>int\<close> members (\<open>num_cycles\<close> and the three counters) are integers; the three
  compound assignments that add or subtract a cycle count (\<open>divider_counter += cycles\<close>,
  \<open>timer_counter -= cycles\<close>, \<open>scanline_counter -= cycles\<close>) are computed as 32-bit two's
  complement arithmetic computes them (\<open>wrap_int\<close>): C++ leaves signed overflow undefined, and
  the wrap-around is what the compiled code does. The \<open>int\<close> locals of the ALU hold the sum or
  difference of two bytes and cannot overflow.
\<close>

definition wrap_int :: "int \<Rightarrow> int" where
  "wrap_int x = (x + 2147483648) mod 4294967296 - 2147483648"

record Emulator =
  reg_A :: Byte
  reg_B :: Byte
  reg_C :: Byte
  reg_D :: Byte
  reg_E :: Byte
  reg_F :: Byte
  reg_H :: Byte
  reg_L :: Byte
  reg_SP :: Byte_2
  reg_PC :: Byte_2
  interrupt_master_enable :: bool
  num_cycles :: int
  memory :: Memory
  divider_counter :: int
  timer_counter :: int
  timer_frequency :: Byte
  scanline_counter :: int

text \<open>A \<open>Byte&\<close> parameter is always bound to one of the eight byte registers (or, in
  \<open>INC(Address)\<close> and \<open>DEC(Address)\<close>, to a local variable, handled there): the reference is the
  register's name.\<close>

datatype Reg = Reg_A | Reg_B | Reg_C | Reg_D | Reg_E | Reg_F | Reg_H | Reg_L

fun get_reg :: "Reg \<Rightarrow> Emulator \<Rightarrow> Byte" where
  "get_reg Reg_A s = reg_A s"
| "get_reg Reg_B s = reg_B s"
| "get_reg Reg_C s = reg_C s"
| "get_reg Reg_D s = reg_D s"
| "get_reg Reg_E s = reg_E s"
| "get_reg Reg_F s = reg_F s"
| "get_reg Reg_H s = reg_H s"
| "get_reg Reg_L s = reg_L s"

fun set_reg :: "Reg \<Rightarrow> Byte \<Rightarrow> Emulator \<Rightarrow> Emulator" where
  "set_reg Reg_A v s = s\<lparr>reg_A := v\<rparr>"
| "set_reg Reg_B v s = s\<lparr>reg_B := v\<rparr>"
| "set_reg Reg_C v s = s\<lparr>reg_C := v\<rparr>"
| "set_reg Reg_D v s = s\<lparr>reg_D := v\<rparr>"
| "set_reg Reg_E v s = s\<lparr>reg_E := v\<rparr>"
| "set_reg Reg_F v s = s\<lparr>reg_F := v\<rparr>"
| "set_reg Reg_H v s = s\<lparr>reg_H := v\<rparr>"
| "set_reg Reg_L v s = s\<lparr>reg_L := v\<rparr>"

text \<open>Modelled from the spec: the flag masks \<open>FLAG_ZERO\<close>, \<open>FLAG_SUB\<close>, \<open>FLAG_HALF_CARRY\<close> and
  \<open>FLAG_CARRY\<close> are declared in cpu.h, which is not among the sources. The spec places Z at
  bit 7, N at bit 6, H at bit 5 and C at bit 4 of F.\<close>

definition FLAG_ZERO :: Byte where "FLAG_ZERO = 0x80"
definition FLAG_SUB :: Byte where "FLAG_SUB = 0x40"
definition FLAG_HALF_CARRY :: Byte where "FLAG_HALF_CARRY = 0x20"
definition FLAG_CARRY :: Byte where "FLAG_CARRY = 0x10"

text \<open>\<open>CPU::address\<close>: \<open>high << 8 | low\<close>, converted to a 16-bit address.\<close>

definition address :: "Byte \<Rightarrow> Byte \<Rightarrow> Address" where
  "address high low = push_bit 8 (ucast high) OR ucast low"

definition high_reg_pair :: "Byte_2 \<Rightarrow> Byte" where
  "high_reg_pair reg_pair = ucast (drop_bit 8 reg_pair) AND 0xFF"

definition low_reg_pair :: "Byte_2 \<Rightarrow> Byte" where
  "low_reg_pair reg_pair = ucast reg_pair"

definition dec_reg_pair :: "Reg \<Rightarrow> Reg \<Rightarrow> Emulator \<Rightarrow> Emulator" where
  "dec_reg_pair high low s =
    (let addr = address (get_reg high s) (get_reg low s) - 1;
         s1 = set_reg high (high_reg_pair addr) s
     in set_reg low (low_reg_pair addr) s1)"

definition inc_reg_pair :: "Reg \<Rightarrow> Reg \<Rightarrow> Emulator \<Rightarrow> Emulator" where
  "inc_reg_pair high low s =
    (let addr = address (get_reg high s) (get_reg low s) + 1;
         s1 = set_reg high (ucast (drop_bit 8 addr) AND 0xFF) s
     in set_reg low (ucast addr) s1)"

definition set_flag :: "Byte \<Rightarrow> bool \<Rightarrow> Emulator \<Rightarrow> Emulator" where
  "set_flag flag v s =
    (if v then s\<lparr>reg_F := reg_F s OR flag\<rparr> else s\<lparr>reg_F := reg_F s AND NOT flag\<rparr>)"

subsection \<open>Loads\<close>

text \<open>The overloads of \<open>LD\<close>, one definition per signature:
  \<open>LD_r_n\<close> is \<open>LD(Byte&, Byte)\<close>, \<open>LD_r_addr\<close> is \<open>LD(Byte&, Address)\<close>,
  \<open>LD_addr_n\<close> is \<open>LD(Address, Byte)\<close>, \<open>LD_SP_nn\<close> is \<open>LD(Byte_2&, Byte, Byte)\<close> (only ever
  called on \<open>reg_SP\<close>), \<open>LD_rr_nn\<close> is \<open>LD(Byte&, Byte&, Byte, Byte)\<close>,
  \<open>LD_rr_word\<close> is \<open>LD(Byte&, Byte&, Byte_2)\<close> and \<open>LD_addr_nn\<close> is \<open>LD(Address, Byte_2)\<close>.\<close>

definition LD_r_n :: "Reg \<Rightarrow> Byte \<Rightarrow> Emulator \<Rightarrow> Emulator" where
  "LD_r_n destination v s = set_reg destination v s"

definition LD_r_addr :: "Reg \<Rightarrow> Address \<Rightarrow> Emulator \<Rightarrow> Emulator option" where
  "LD_r_addr destination addr s =
    (case read (memory s) addr of None \<Rightarrow> None | Some v \<Rightarrow> Some (set_reg destination v s))"

definition LD_addr_n :: "Address \<Rightarrow> Byte \<Rightarrow> Emulator \<Rightarrow> Emulator" where
  "LD_addr_n addr v s = s\<lparr>memory := write_mem (memory s) addr v\<rparr>"

definition LD_SP_nn :: "Byte \<Rightarrow> Byte \<Rightarrow> Emulator \<Rightarrow> Emulator" where
  "LD_SP_nn lsb msb s = s\<lparr>reg_SP := address msb lsb\<rparr>"

definition LD_rr_nn :: "Reg \<Rightarrow> Reg \<Rightarrow> Byte \<Rightarrow> Byte \<Rightarrow> Emulator \<Rightarrow> Emulator" where
  "LD_rr_nn reg_high reg_low lsb msb s = set_reg reg_low lsb (set_reg reg_high msb s)"

definition LD_rr_word :: "Reg \<Rightarrow> Reg \<Rightarrow> Byte_2 \<Rightarrow> Emulator \<Rightarrow> Emulator" where
  "LD_rr_word reg_high reg_low v s =
    (let s1 = set_reg reg_high (high_reg_pair v) s;
         s2 = set_reg reg_low (low_reg_pair v) s1;
         s3 = set_flag FLAG_ZERO False s2
     in set_flag FLAG_SUB False s3)"

definition LD_addr_nn :: "Address \<Rightarrow> Byte_2 \<Rightarrow> Emulator \<Rightarrow> Emulator" where
  "LD_addr_nn destination v s =
    (let m1 = write_mem (memory s) destination (low_reg_pair v)
     in s\<lparr>memory := write_mem m1 (destination + 1) (high_reg_pair v)\<rparr>)"

subsection \<open>Stack\<close>

definition PUSH :: "Byte \<Rightarrow> Byte \<Rightarrow> Emulator \<Rightarrow> Emulator" where
  "PUSH high low s =
    (let s1 = s\<lparr>reg_SP := reg_SP s - 1\<rparr>;
         s2 = s1\<lparr>memory := write_mem (memory s1) (reg_SP s1) high\<rparr>;
         s3 = s2\<lparr>reg_SP := reg_SP s2 - 1\<rparr>
     in s3\<lparr>memory := write_mem (memory s3) (reg_SP s3) low\<rparr>)"

definition POP :: "Reg \<Rightarrow> Reg \<Rightarrow> Emulator \<Rightarrow> Emulator option" where
  "POP high low s =
    (case read (memory s) (reg_SP s) of
       None \<Rightarrow> None
     | Some lo \<Rightarrow>
        (let s1 = set_reg low lo (s\<lparr>reg_SP := reg_SP s + 1\<rparr>) in
         case read (memory s1) (reg_SP s1) of
           None \<Rightarrow> None
         | Some hi \<Rightarrow> Some (set_reg high hi (s1\<lparr>reg_SP := reg_SP s1 + 1\<rparr>))))"

subsection \<open>ALU\<close>

text \<open>In each operation \<open>result\<close> is the source's \<open>int\<close>, computed before truncation; the
  flag tests read it as written there. \<open>set_flag(FLAG_HALF_CARRY, x & 0x10)\<close> converts the
  integer to \<open>bool\<close>: true when it is not zero.\<close>

definition ADD :: "Reg \<Rightarrow> Byte \<Rightarrow> Emulator \<Rightarrow> Emulator" where
  "ADD target v s =
    (let result = uint (get_reg target s) + uint v;
         s1 = set_flag FLAG_ZERO (result = 0) s;
         s2 = set_flag FLAG_SUB False s1;
         s3 = set_flag FLAG_HALF_CARRY
                ((uint (get_reg target s2 AND 0xF) + uint (v AND 0xF)) AND 0x10 \<noteq> 0) s2;
         s4 = set_flag FLAG_CARRY (result > 0xFF) s3
     in set_reg target (get_reg target s4 + v) s4)"

definition ADD_addr :: "Reg \<Rightarrow> Address \<Rightarrow> Emulator \<Rightarrow> Emulator option" where
  "ADD_addr target addr s =
    (case read (memory s) addr of None \<Rightarrow> None | Some val \<Rightarrow> Some (ADD target val s))"

definition ADDC :: "Reg \<Rightarrow> Byte \<Rightarrow> Emulator \<Rightarrow> Emulator" where
  "ADDC target v s =
    (let carry = (if reg_F s AND FLAG_CARRY \<noteq> 0 then 1 else 0);
         s1 = ADD target v s
     in set_reg target (get_reg target s1 + carry) s1)"

definition ADDC_addr :: "Reg \<Rightarrow> Address \<Rightarrow> Emulator \<Rightarrow> Emulator option" where
  "ADDC_addr target addr s =
    (case read (memory s) addr of None \<Rightarrow> None | Some val \<Rightarrow> Some (ADDC target val s))"

definition SUB :: "Reg \<Rightarrow> Byte \<Rightarrow> Emulator \<Rightarrow> Emulator" where
  "SUB target v s =
    (let result = uint (get_reg target s) - uint v;
         s1 = set_flag FLAG_ZERO (result = 0) s;
         s2 = set_flag FLAG_SUB True s1;
         s3 = set_flag FLAG_HALF_CARRY
                (uint (get_reg target s2 AND 0xF) - uint (v AND 0xF) < 0) s2;
         s4 = set_flag FLAG_CARRY (result < 0) s3
     in set_reg target (get_reg target s4 - v) s4)"

definition SUB_addr :: "Reg \<Rightarrow> Address \<Rightarrow> Emulator \<Rightarrow> Emulator option" where
  "SUB_addr target addr s =
    (case read (memory s) addr of None \<Rightarrow> None | Some val \<Rightarrow> Some (SUB target val s))"

definition SUBC :: "Reg \<Rightarrow> Byte \<Rightarrow> Emulator \<Rightarrow> Emulator" where
  "SUBC target v s =
    (let carry = (if reg_F s AND FLAG_CARRY \<noteq> 0 then 1 else 0);
         s1 = SUB target v s
     in set_reg target (get_reg target s1 - carry) s1)"

definition SUBC_addr :: "Reg \<Rightarrow> Address \<Rightarrow> Emulator \<Rightarrow> Emulator option" where
  "SUBC_addr target addr s =
    (case read (memory s) addr of None \<Rightarrow> None | Some val \<Rightarrow> Some (SUBC target val s))"

text \<open>\<open>CPU::AND\<close>, \<open>CPU::OR\<close> and \<open>CPU::XOR\<close> carry the suffix \<open>_op\<close>: the bare names are
  the word operators.\<close>

definition AND_op :: "Reg \<Rightarrow> Byte \<Rightarrow> Emulator \<Rightarrow> Emulator" where
  "AND_op target v s =
    (let s0 = set_reg target (get_reg target s AND v) s;
         s1 = set_flag FLAG_ZERO (get_reg target s0 = 0) s0;
         s2 = set_flag FLAG_SUB False s1;
         s3 = set_flag FLAG_HALF_CARRY True s2
     in set_flag FLAG_CARRY False s3)"

definition AND_op_addr :: "Reg \<Rightarrow> Address \<Rightarrow> Emulator \<Rightarrow> Emulator option" where
  "AND_op_addr target addr s =
    (case read (memory s) addr of None \<Rightarrow> None | Some val \<Rightarrow> Some (AND_op target val s))"

definition OR_op :: "Reg \<Rightarrow> Byte \<Rightarrow> Emulator \<Rightarrow> Emulator" where
  "OR_op target v s =
    (let s0 = set_reg target (get_reg target s OR v) s;
         s1 = set_flag FLAG_ZERO (get_reg target s0 = 0) s0;
         s2 = set_flag FLAG_SUB False s1;
         s3 = set_flag FLAG_HALF_CARRY False s2
     in set_flag FLAG_CARRY False s3)"

definition OR_op_addr :: "Reg \<Rightarrow> Address \<Rightarrow> Emulator \<Rightarrow> Emulator option" where
  "OR_op_addr target addr s =
    (case read (memory s) addr of None \<Rightarrow> None | Some val \<Rightarrow> Some (OR_op target val s))"

definition XOR_op :: "Reg \<Rightarrow> Byte \<Rightarrow> Emulator \<Rightarrow> Emulator" where
  "XOR_op target v s =
    (let s0 = set_reg target (get_reg target s XOR v) s;
         s1 = set_flag FLAG_ZERO (get_reg target s0 = 0) s0;
         s2 = set_flag FLAG_SUB False s1;
         s3 = set_flag FLAG_HALF_CARRY False s2
     in set_flag FLAG_CARRY False s3)"

text \<open>\<open>XOR(Byte&, Address)\<close> calls \<open>OR(target, val)\<close> in the source.\<close>

definition XOR_op_addr :: "Reg \<Rightarrow> Address \<Rightarrow> Emulator \<Rightarrow> Emulator option" where
  "XOR_op_addr target addr s =
    (case read (memory s) addr of None \<Rightarrow> None | Some val \<Rightarrow> Some (OR_op target val s))"

definition CP :: "Reg \<Rightarrow> Byte \<Rightarrow> Emulator \<Rightarrow> Emulator" where
  "CP target v s =
    (let result = uint (get_reg target s) - uint v;
         s1 = set_flag FLAG_ZERO (result = 0) s;
         s2 = set_flag FLAG_SUB True s1;
         s3 = set_flag FLAG_HALF_CARRY
                (uint (get_reg target s2 AND 0xF) - uint (v AND 0xF) < 0) s2
     in set_flag FLAG_CARRY (result < 0) s3)"

definition CP_addr :: "Reg \<Rightarrow> Address \<Rightarrow> Emulator \<Rightarrow> Emulator option" where
  "CP_addr target addr s =
    (case read (memory s) addr of None \<Rightarrow> None | Some val \<Rightarrow> Some (CP target val s))"

text \<open>\<open>INC(Byte&)\<close> and \<open>DEC(Byte&)\<close> are also called on the local variable of
  \<open>INC(Address)\<close> and \<open>DEC(Address)\<close>, so their bodies take the byte referred to and return its
  new value with the state; \<open>INC\<close> and \<open>DEC\<close> apply them to a register.\<close>

definition INC_byte :: "Byte \<Rightarrow> Emulator \<Rightarrow> Byte \<times> Emulator" where
  "INC_byte target s =
    (let result = uint target + 1;
         s1 = set_flag FLAG_ZERO (result = 0) s;
         s2 = set_flag FLAG_SUB False s1;
         s3 = set_flag FLAG_HALF_CARRY ((uint (target AND 0xF) + 1) AND 0x10 \<noteq> 0) s2
     in (target + 1, s3))"

definition INC :: "Reg \<Rightarrow> Emulator \<Rightarrow> Emulator" where
  "INC target s = (case INC_byte (get_reg target s) s of (v, s') \<Rightarrow> set_reg target v s')"

definition INC_addr :: "Address \<Rightarrow> Emulator \<Rightarrow> Emulator option" where
  "INC_addr addr s =
    (case read (memory s) addr of
       None \<Rightarrow> None
     | Some val \<Rightarrow>
        (case INC_byte val s of (v, s') \<Rightarrow> Some (s'\<lparr>memory := write_mem (memory s') addr v\<rparr>)))"

definition DEC_byte :: "Byte \<Rightarrow> Emulator \<Rightarrow> Byte \<times> Emulator" where
  "DEC_byte target s =
    (let result = uint target - 1;
         s1 = set_flag FLAG_ZERO (result = 0) s;
         s2 = set_flag FLAG_SUB True s1;
         s3 = set_flag FLAG_HALF_CARRY (uint (target AND 0xF) - 1 < 0) s2
     in (target - 1, s3))"

definition DEC :: "Reg \<Rightarrow> Emulator \<Rightarrow> Emulator" where
  "DEC target s = (case DEC_byte (get_reg target s) s of (v, s') \<Rightarrow> set_reg target v s')"

definition DEC_addr :: "Address \<Rightarrow> Emulator \<Rightarrow> Emulator option" where
  "DEC_addr addr s =
    (case read (memory s) addr of
       None \<Rightarrow> None
     | Some val \<Rightarrow>
        (case DEC_byte val s of (v, s') \<Rightarrow> Some (s'\<lparr>memory := write_mem (memory s') addr v\<rparr>)))"

subsection \<open>Decoding\<close>

text \<open>The \<open>switch\<close> of \<open>CPU::parse_opcode\<close>, case by case in the source's order. Each case
  yields \<open>opbytes\<close> and the state; a case that reads memory fails when the read does. An opcode
  with no case leaves the state alone and yields the initial \<open>opbytes = 1\<close>. \<open>value\<close> and
  \<open>value2\<close> are the two local bytes the cases use as immediate operands.\<close>

definition opcode_switch ::
  "Opcode \<Rightarrow> Byte \<Rightarrow> Byte \<Rightarrow> Emulator \<Rightarrow> (int \<times> Emulator) option" where
  "opcode_switch code value value2 s =
    (
     if code = 0x06 then Some (2, LD_r_n Reg_B value s) else
     if code = 0x0E then Some (2, LD_r_n Reg_C value s) else
     if code = 0x16 then Some (2, LD_r_n Reg_D value s) else
     if code = 0x1E then Some (2, LD_r_n Reg_E value s) else
     if code = 0x26 then Some (2, LD_r_n Reg_H value s) else
     if code = 0x2E then Some (2, LD_r_n Reg_L value s) else
     if code = 0x7F then Some (1, LD_r_n Reg_A (reg_A s) s) else
     if code = 0x78 then Some (1, LD_r_n Reg_A (reg_B s) s) else
     if code = 0x79 then Some (1, LD_r_n Reg_A (reg_C s) s) else
     if code = 0x7A then Some (1, LD_r_n Reg_A (reg_D s) s) else
     if code = 0x7B then Some (1, LD_r_n Reg_A (reg_E s) s) else
     if code = 0x7C then Some (1, LD_r_n Reg_A (reg_H s) s) else
     if code = 0x7D then Some (1, LD_r_n Reg_A (reg_L s) s) else
     if code = 0x7E then map_option (Pair 1) (LD_r_addr Reg_A (address (reg_H s) (reg_L s)) s) else
     if code = 0x40 then Some (1, LD_r_n Reg_B (reg_B s) s) else
     if code = 0x41 then Some (1, LD_r_n Reg_B (reg_C s) s) else
     if code = 0x42 then Some (1, LD_r_n Reg_B (reg_D s) s) else
     if code = 0x43 then Some (1, LD_r_n Reg_B (reg_E s) s) else
     if code = 0x44 then Some (1, LD_r_n Reg_B (reg_H s) s) else
     if code = 0x45 then Some (1, LD_r_n Reg_B (reg_L s) s) else
     if code = 0x46 then map_option (Pair 1) (LD_r_addr Reg_B (address (reg_H s) (reg_L s)) s) else
     if code = 0x48 then Some (1, LD_r_n Reg_C (reg_B s) s) else
     if code = 0x49 then Some (1, LD_r_n Reg_C (reg_C s) s) else
     if code = 0x4A then Some (1, LD_r_n Reg_C (reg_D s) s) else
     if code = 0x4B then Some (1, LD_r_n Reg_C (reg_E s) s) else
     if code = 0x4C then Some (1, LD_r_n Reg_C (reg_H s) s) else
     if code = 0x4D then Some (1, LD_r_n Reg_C (reg_L s) s) else
     if code = 0x4E then map_option (Pair 1) (LD_r_addr Reg_C (address (reg_H s) (reg_L s)) s) else
     if code = 0x50 then Some (1, LD_r_n Reg_D (reg_B s) s) else
     if code = 0x51 then Some (1, LD_r_n Reg_D (reg_C s) s) else
     if code = 0x52 then Some (1, LD_r_n Reg_D (reg_D s) s) else
     if code = 0x53 then Some (1, LD_r_n Reg_D (reg_E s) s) else
     if code = 0x54 then Some (1, LD_r_n Reg_D (reg_H s) s) else
     if code = 0x55 then Some (1, LD_r_n Reg_D (reg_L s) s) else
     if code = 0x56 then map_option (Pair 1) (LD_r_addr Reg_D (address (reg_H s) (reg_L s)) s) else
     if code = 0x58 then Some (1, LD_r_n Reg_E (reg_B s) s) else
     if code = 0x59 then Some (1, LD_r_n Reg_E (reg_C s) s) else
     if code = 0x5A then Some (1, LD_r_n Reg_E (reg_D s) s) else
     if code = 0x5B then Some (1, LD_r_n Reg_E (reg_E s) s) else
     if code = 0x5C then Some (1, LD_r_n Reg_E (reg_H s) s) else
     if code = 0x5D then Some (1, LD_r_n Reg_E (reg_L s) s) else
     if code = 0x5E then map_option (Pair 1) (LD_r_addr Reg_E (address (reg_H s) (reg_L s)) s) else
     if code = 0x60 then Some (1, LD_r_n Reg_H (reg_B s) s) else
     if code = 0x61 then Some (1, LD_r_n Reg_H (reg_C s) s) else
     if code = 0x62 then Some (1, LD_r_n Reg_H (reg_D s) s) else
     if code = 0x63 then Some (1, LD_r_n Reg_H (reg_E s) s) else
     if code = 0x64 then Some (1, LD_r_n Reg_H (reg_H s) s) else
     if code = 0x65 then Some (1, LD_r_n Reg_H (reg_L s) s) else
     if code = 0x66 then map_option (Pair 1) (LD_r_addr Reg_H (address (reg_H s) (reg_L s)) s) else
     if code = 0x68 then Some (1, LD_r_n Reg_L (reg_B s) s) else
     if code = 0x69 then Some (1, LD_r_n Reg_L (reg_C s) s) else
     if code = 0x6A then Some (1, LD_r_n Reg_L (reg_D s) s) else
     if code = 0x6B then Some (1, LD_r_n Reg_L (reg_E s) s) else
     if code = 0x6C then Some (1, LD_r_n Reg_L (reg_H s) s) else
     if code = 0x6D then Some (1, LD_r_n Reg_L (reg_L s) s) else
     if code = 0x6E then map_option (Pair 1) (LD_r_addr Reg_L (address (reg_H s) (reg_L s)) s) else
     if code = 0x70 then Some (1, LD_addr_n (address (reg_H s) (reg_L s)) (reg_B s) s) else
     if code = 0x71 then Some (1, LD_addr_n (address (reg_H s) (reg_L s)) (reg_C s) s) else
     if code = 0x72 then Some (1, LD_addr_n (address (reg_H s) (reg_L s)) (reg_D s) s) else
     if code = 0x73 then Some (1, LD_addr_n (address (reg_H s) (reg_L s)) (reg_E s) s) else
     if code = 0x74 then Some (1, LD_addr_n (address (reg_H s) (reg_L s)) (reg_H s) s) else
     if code = 0x75 then Some (1, LD_addr_n (address (reg_H s) (reg_L s)) (reg_L s) s) else
     if code = 0x36 then Some (2, LD_addr_n (address (reg_H s) (reg_L s)) value s) else
     if code = 0x0A then map_option (Pair 1) (LD_r_addr Reg_A (address (reg_B s) (reg_C s)) s) else
     if code = 0x1A then map_option (Pair 1) (LD_r_addr Reg_A (address (reg_D s) (reg_E s)) s) else
     if code = 0xFA then map_option (Pair 3) (LD_r_addr Reg_A (address value2 value) s) else
     if code = 0x47 then Some (1, LD_r_n Reg_B (reg_A s) s) else
     if code = 0x4F then Some (1, LD_r_n Reg_C (reg_A s) s) else
     if code = 0x57 then Some (1, LD_r_n Reg_D (reg_A s) s) else
     if code = 0x5F then Some (1, LD_r_n Reg_E (reg_A s) s) else
     if code = 0x67 then Some (1, LD_r_n Reg_H (reg_A s) s) else
     if code = 0x6F then Some (1, LD_r_n Reg_L (reg_A s) s) else
     if code = 0x02 then Some (1, LD_addr_n (address (reg_B s) (reg_C s)) (reg_A s) s) else
     if code = 0x12 then Some (1, LD_addr_n (address (reg_D s) (reg_E s)) (reg_A s) s) else
     if code = 0x77 then Some (1, LD_addr_n (address (reg_H s) (reg_L s)) (reg_A s) s) else
     if code = 0xEA then Some (3, LD_addr_n (address value2 value) (reg_A s) s) else
     if code = 0xF2 then map_option (Pair 1) (map_option (\<lambda>v. LD_r_n Reg_A v s) (read (memory s) (0xFF00 + ucast (reg_C s)))) else
     if code = 0xE2 then Some (1, LD_addr_n (0xFF00 + ucast (reg_C s)) (reg_A s) s) else
     if code = 0x3A then map_option (\<lambda>t. (1, dec_reg_pair Reg_H Reg_L t)) (LD_r_addr Reg_A (address (reg_H s) (reg_L s)) s) else
     if code = 0x32 then Some (1, dec_reg_pair Reg_H Reg_L (LD_addr_n (address (reg_H s) (reg_L s)) (reg_A s) s)) else
     if code = 0x2A then map_option (\<lambda>t. (1, inc_reg_pair Reg_H Reg_L t)) (LD_r_addr Reg_A (address (reg_H s) (reg_L s)) s) else
     if code = 0x22 then Some (1, inc_reg_pair Reg_H Reg_L (LD_addr_n (address (reg_H s) (reg_L s)) (reg_A s) s)) else
     if code = 0xE0 then Some (1, s\<lparr>memory := write_mem (memory s) (0xFF00 + ucast value) (reg_A s)\<rparr>) else
     if code = 0xF0 then map_option (Pair 1) (map_option (\<lambda>v. LD_r_n Reg_A v s) (read (memory s) (0xFF00 + ucast value))) else
     if code = 0x01 then Some (3, LD_rr_nn Reg_B Reg_C value value2 s) else
     if code = 0x11 then Some (3, LD_rr_nn Reg_D Reg_E value value2 s) else
     if code = 0x21 then Some (3, LD_rr_nn Reg_H Reg_L value value2 s) else
     if code = 0x31 then Some (3, LD_SP_nn value value2 s) else
     if code = 0xF9 then Some (1, LD_SP_nn (reg_L s) (reg_H s) s) else
     if code = 0xF8 then Some (2, LD_rr_word Reg_H Reg_L (reg_SP s + ucast value) s) else
     if code = 0x08 then Some (3, LD_addr_nn (address value2 value) (reg_SP s) s) else
     if code = 0xF5 then Some (1, PUSH (reg_A s) (reg_F s) s) else
     if code = 0xC5 then Some (1, PUSH (reg_B s) (reg_C s) s) else
     if code = 0xD5 then Some (1, PUSH (reg_D s) (reg_E s) s) else
     if code = 0xE5 then Some (1, PUSH (reg_H s) (reg_L s) s) else
     if code = 0xF1 then map_option (Pair 1) (POP Reg_A Reg_F s) else
     if code = 0xC1 then map_option (Pair 1) (POP Reg_B Reg_C s) else
     if code = 0xD1 then map_option (Pair 1) (POP Reg_D Reg_E s) else
     if code = 0xE1 then map_option (Pair 1) (POP Reg_H Reg_L s) else
     if code = 0x87 then Some (1, ADD Reg_A (reg_A s) s) else
     if code = 0x80 then Some (1, ADD Reg_A (reg_B s) s) else
     if code = 0x81 then Some (1, ADD Reg_A (reg_C s) s) else
     if code = 0x82 then Some (1, ADD Reg_A (reg_D s) s) else
     if code = 0x83 then Some (1, ADD Reg_A (reg_E s) s) else
     if code = 0x84 then Some (1, ADD Reg_A (reg_H s) s) else
     if code = 0x85 then Some (1, ADD Reg_A (reg_L s) s) else
     if code = 0x86 then map_option (Pair 1) (ADD_addr Reg_A (address (reg_H s) (reg_L s)) s) else
     if code = 0xC6 then Some (2, ADD Reg_A value s) else
     if code = 0x8F then Some (1, ADDC Reg_A (reg_A s) s) else
     if code = 0x88 then Some (1, ADDC Reg_A (reg_B s) s) else
     if code = 0x89 then Some (1, ADDC Reg_A (reg_C s) s) else
     if code = 0x8A then Some (1, ADDC Reg_A (reg_D s) s) else
     if code = 0x8B then Some (1, ADDC Reg_A (reg_E s) s) else
     if code = 0x8C then Some (1, ADDC Reg_A (reg_H s) s) else
     if code = 0x8D then Some (1, ADDC Reg_A (reg_L s) s) else
     if code = 0x8E then map_option (Pair 1) (ADDC_addr Reg_A (address (reg_H s) (reg_L s)) s) else
     if code = 0xCE then Some (2, ADDC Reg_A value s) else
     if code = 0x97 then Some (1, SUB Reg_A (reg_A s) s) else
     if code = 0x90 then Some (1, SUB Reg_A (reg_B s) s) else
     if code = 0x91 then Some (1, SUB Reg_A (reg_C s) s) else
     if code = 0x92 then Some (1, SUB Reg_A (reg_D s) s) else
     if code = 0x93 then Some (1, SUB Reg_A (reg_E s) s) else
     if code = 0x94 then Some (1, SUB Reg_A (reg_H s) s) else
     if code = 0x95 then Some (1, SUB Reg_A (reg_L s) s) else
     if code = 0x96 then map_option (Pair 1) (SUB_addr Reg_A (address (reg_H s) (reg_L s)) s) else
     if code = 0xD6 then Some (2, SUB Reg_A value s) else
     if code = 0x9F then Some (1, SUBC Reg_A (reg_A s) s) else
     if code = 0x98 then Some (1, SUBC Reg_A (reg_B s) s) else
     if code = 0x99 then Some (1, SUBC Reg_A (reg_C s) s) else
     if code = 0x9A then Some (1, SUBC Reg_A (reg_D s) s) else
     if code = 0x9B then Some (1, SUBC Reg_A (reg_E s) s) else
     if code = 0x9C then Some (1, SUBC Reg_A (reg_H s) s) else
     if code = 0x9D then Some (1, SUBC Reg_A (reg_L s) s) else
     if code = 0x9E then map_option (Pair 1) (SUBC_addr Reg_A (address (reg_H s) (reg_L s)) s) else
     if code = 0xA7 then Some (1, AND_op Reg_A (reg_A s) s) else
     if code = 0xA0 then Some (1, AND_op Reg_A (reg_B s) s) else
     if code = 0xA1 then Some (1, AND_op Reg_A (reg_C s) s) else
     if code = 0xA2 then Some (1, AND_op Reg_A (reg_D s) s) else
     if code = 0xA3 then Some (1, AND_op Reg_A (reg_E s) s) else
     if code = 0xA4 then Some (1, AND_op Reg_A (reg_H s) s) else
     if code = 0xA5 then Some (1, AND_op Reg_A (reg_L s) s) else
     if code = 0xA6 then map_option (Pair 1) (AND_op_addr Reg_A (address (reg_H s) (reg_L s)) s) else
     if code = 0xE6 then Some (2, AND_op Reg_A value s) else
     if code = 0xB7 then Some (1, OR_op Reg_A (reg_A s) s) else
     if code = 0xB0 then Some (1, OR_op Reg_A (reg_B s) s) else
     if code = 0xB1 then Some (1, OR_op Reg_A (reg_C s) s) else
     if code = 0xB2 then Some (1, OR_op Reg_A (reg_D s) s) else
     if code = 0xB3 then Some (1, OR_op Reg_A (reg_E s) s) else
     if code = 0xB4 then Some (1, OR_op Reg_A (reg_H s) s) else
     if code = 0xB5 then Some (1, OR_op Reg_A (reg_L s) s) else
     if code = 0xB6 then map_option (Pair 1) (OR_op_addr Reg_A (address (reg_H s) (reg_L s)) s) else
     if code = 0xF6 then Some (2, OR_op Reg_A value s) else
     if code = 0xAF then Some (1, XOR_op Reg_A (reg_A s) s) else
     if code = 0xA8 then Some (1, XOR_op Reg_A (reg_B s) s) else
     if code = 0xA9 then Some (1, XOR_op Reg_A (reg_C s) s) else
     if code = 0xAA then Some (1, XOR_op Reg_A (reg_D s) s) else
     if code = 0xAB then Some (1, XOR_op Reg_A (reg_E s) s) else
     if code = 0xAC then Some (1, XOR_op Reg_A (reg_H s) s) else
     if code = 0xAD then Some (1, XOR_op Reg_A (reg_L s) s) else
     if code = 0xAE then map_option (Pair 1) (XOR_op_addr Reg_A (address (reg_H s) (reg_L s)) s) else
     if code = 0xEE then Some (2, XOR_op Reg_A value s) else
     if code = 0xBF then Some (1, CP Reg_A (reg_A s) s) else
     if code = 0xB8 then Some (1, CP Reg_A (reg_B s) s) else
     if code = 0xB9 then Some (1, CP Reg_A (reg_C s) s) else
     if code = 0xBA then Some (1, CP Reg_A (reg_D s) s) else
     if code = 0xBB then Some (1, CP Reg_A (reg_E s) s) else
     if code = 0xBC then Some (1, CP Reg_A (reg_H s) s) else
     if code = 0xBD then Some (1, CP Reg_A (reg_L s) s) else
     if code = 0xBE then map_option (Pair 1) (CP_addr Reg_A (address (reg_H s) (reg_L s)) s) else
     if code = 0xFE then Some (2, CP Reg_A value s) else
     if code = 0x3C then Some (1, INC Reg_A s) else
     if code = 0x04 then Some (1, INC Reg_B s) else
     if code = 0x0C then Some (1, INC Reg_C s) else
     if code = 0x14 then Some (1, INC Reg_D s) else
     if code = 0x1C then Some (1, INC Reg_E s) else
     if code = 0x24 then Some (1, INC Reg_H s) else
     if code = 0x2C then Some (1, INC Reg_L s) else
     if code = 0x34 then map_option (Pair 1) (INC_addr (address (reg_H s) (reg_L s)) s) else
     if code = 0x3D then Some (1, DEC Reg_A s) else
     if code = 0x05 then Some (1, DEC Reg_B s) else
     if code = 0x0D then Some (1, DEC Reg_C s) else
     if code = 0x15 then Some (1, DEC Reg_D s) else
     if code = 0x1D then Some (1, DEC Reg_E s) else
     if code = 0x25 then Some (1, DEC Reg_H s) else
     if code = 0x2D then Some (1, DEC Reg_L s) else
     if code = 0x35 then map_option (Pair 1) (DEC_addr (address (reg_H s) (reg_L s)) s) else
     Some (1, s))"

text \<open>\<open>CPU::parse_opcode\<close>: the locals \<open>value = 200\<close>, \<open>value2 = 200\<close>, \<open>addr1 = 0\<close> and
  \<open>addr2 = 5\<close>, the two assignments \<open>reg_H = addr1; reg_L = addr2;\<close>, then the switch.\<close>

definition parse_opcode :: "Opcode \<Rightarrow> Emulator \<Rightarrow> (int \<times> Emulator) option" where
  "parse_opcode code s =
    (let value = 200; value2 = 200; addr1 = 0; addr2 = 5;
         s1 = s\<lparr>reg_H := addr1\<rparr>;
         s2 = s1\<lparr>reg_L := addr2\<rparr>
     in opcode_switch code value value2 s2)"

section \<open>Emulator (emulator.cpp)\<close>

subsection \<open>Memory registers and bit helpers\<close>

text \<open>A \<open>MemoryRegister\<close> holds a pointer to one cell of \<open>ZRAM\<close>, so a register and the address
  \<open>0xFF00 + offset\<close> are the same cell: the register is the cell's offset. \<open>TIMA\<close>, \<open>TMA\<close>,
  \<open>TAC\<close>, \<open>LCDC\<close>, \<open>LYC\<close> and \<open>IE\<close> are bound in \<open>Memory::Memory()\<close>.\<close>

type_synonym MemoryRegister = nat

definition TIMA :: MemoryRegister where "TIMA = 0x05"
definition TMA :: MemoryRegister where "TMA = 0x06"
definition TAC :: MemoryRegister where "TAC = 0x07"
definition LCDC :: MemoryRegister where "LCDC = 0x40"
definition LYC :: MemoryRegister where "LYC = 0x45"
definition IE :: MemoryRegister where "IE = 0xFF"

text \<open>Modelled from the spec: \<open>DIV\<close>, \<open>IF\<close>, \<open>STAT\<close> and \<open>LY\<close> are used by emulator.cpp but
  bound in no source file present; the spec's register table puts them at offsets 0x04, 0x0F,
  0x41 and 0x44 of the I/O page.\<close>

definition DIV :: MemoryRegister where "DIV = 0x04"
definition IF :: MemoryRegister where "IF = 0x0F"
definition STAT :: MemoryRegister where "STAT = 0x41"
definition LY :: MemoryRegister where "LY = 0x44"

definition MemoryRegister_get :: "MemoryRegister \<Rightarrow> Memory \<Rightarrow> Byte" where
  "MemoryRegister_get r m = ZRAM m r"

definition MemoryRegister_set :: "MemoryRegister \<Rightarrow> Byte \<Rightarrow> Memory \<Rightarrow> Memory" where
  "MemoryRegister_set r data m = m\<lparr>ZRAM := (ZRAM m)(r := data)\<rparr>"

text \<open>Modelled from the spec: the bit helpers \<open>set_bit\<close>, \<open>clear_bit\<close>, \<open>is_bit_set\<close>, the
  \<open>MemoryRegister\<close> methods of the same names and \<open>clear\<close>, and \<open>high_byte\<close>, \<open>low_byte\<close> are
  defined in headers that are not among the sources. They are modelled by what their names and
  the spec's use of them say: bit \<open>n\<close> of a byte is set, cleared or tested (the source passes
  \<open>BIT_0\<close> and the literal \<open>0\<close> alike, and the loop index of \<open>do_interrupts\<close>, so the argument
  is the bit's index), \<open>clear\<close> stores zero, and the two halves of a 16-bit value are its high
  and low byte.\<close>

definition set_bit_of :: "Byte \<Rightarrow> nat \<Rightarrow> Byte" where
  "set_bit_of b n = b OR push_bit n 1"

definition clear_bit_of :: "Byte \<Rightarrow> nat \<Rightarrow> Byte" where
  "clear_bit_of b n = b AND NOT (push_bit n 1)"

definition is_bit_set :: "Byte \<Rightarrow> nat \<Rightarrow> bool" where
  "is_bit_set b n = (b AND push_bit n 1 \<noteq> 0)"

definition MemoryRegister_is_bit_set :: "MemoryRegister \<Rightarrow> nat \<Rightarrow> Memory \<Rightarrow> bool" where
  "MemoryRegister_is_bit_set r n m = is_bit_set (MemoryRegister_get r m) n"

definition MemoryRegister_set_bit :: "MemoryRegister \<Rightarrow> nat \<Rightarrow> Memory \<Rightarrow> Memory" where
  "MemoryRegister_set_bit r n m = MemoryRegister_set r (set_bit_of (MemoryRegister_get r m) n) m"

definition MemoryRegister_clear_bit :: "MemoryRegister \<Rightarrow> nat \<Rightarrow> Memory \<Rightarrow> Memory" where
  "MemoryRegister_clear_bit r n m =
    MemoryRegister_set r (clear_bit_of (MemoryRegister_get r m) n) m"

definition MemoryRegister_clear :: "MemoryRegister \<Rightarrow> Memory \<Rightarrow> Memory" where
  "MemoryRegister_clear r m = MemoryRegister_set r 0 m"

definition high_byte :: "Byte_2 \<Rightarrow> Byte" where
  "high_byte v = ucast (drop_bit 8 v)"

definition low_byte :: "Byte_2 \<Rightarrow> Byte" where
  "low_byte v = ucast v"

text \<open>Modelled from the spec: the interrupt identifiers and bit names are header constants. The
  spec numbers the interrupts 0 = V-Blank, 1 = LCDC, 2 = Timer, 3 = Serial, 4 = Joypad
  (\<open>update_scanline\<close> itself requests V-Blank as \<open>request_interrupt(0)\<close>); \<open>BIT_n\<close> is \<open>n\<close>.\<close>

definition INTERRUPT_VBLANK :: nat where "INTERRUPT_VBLANK = 0"
definition INTERRUPT_LCDC :: nat where "INTERRUPT_LCDC = 1"
definition INTERRUPT_TIMER :: nat where "INTERRUPT_TIMER = 2"
definition INTERRUPT_SERIAL :: nat where "INTERRUPT_SERIAL = 3"
definition INTERRUPT_JOYPAD :: nat where "INTERRUPT_JOYPAD = 4"

definition BIT_0 :: nat where "BIT_0 = 0"
definition BIT_1 :: nat where "BIT_1 = 1"
definition BIT_2 :: nat where "BIT_2 = 2"
definition BIT_3 :: nat where "BIT_3 = 3"
definition BIT_4 :: nat where "BIT_4 = 4"
definition BIT_5 :: nat where "BIT_5 = 5"
definition BIT_6 :: nat where "BIT_6 = 6"

text \<open>Modelled from the spec: \<open>display.is_lcd_enabled()\<close> and \<open>display.draw_scanline()\<close> belong
  to the display, which is not among the sources. The spec sources the enable query from bit 7 of
  LCDC; drawing fills the display's pixel buffers, which are no part of this state.\<close>

definition is_lcd_enabled :: "Emulator \<Rightarrow> bool" where
  "is_lcd_enabled s = MemoryRegister_is_bit_set LCDC 7 (memory s)"

definition draw_scanline :: "Emulator \<Rightarrow> Emulator" where
  "draw_scanline s = s"

subsection \<open>Timers\<close>

definition update_divider :: "int \<Rightarrow> Emulator \<Rightarrow> Emulator" where
  "update_divider cycles s =
    (let s1 = s\<lparr>divider_counter := wrap_int (divider_counter s + cycles)\<rparr> in
     if divider_counter s1 \<ge> 256 then
       (let s2 = s1\<lparr>divider_counter := 0\<rparr>
        in s2\<lparr>memory := MemoryRegister_set DIV (MemoryRegister_get DIV (memory s2) + 1) (memory s2)\<rparr>)
     else s1)"

definition timer_enabled :: "Emulator \<Rightarrow> bool" where
  "timer_enabled s = MemoryRegister_is_bit_set TAC BIT_2 (memory s)"

definition get_timer_frequency :: "Emulator \<Rightarrow> Byte" where
  "get_timer_frequency s = MemoryRegister_get TAC (memory s) AND 0x3"

definition set_timer_frequency :: "Emulator \<Rightarrow> Emulator" where
  "set_timer_frequency s =
    (let frequency = get_timer_frequency s;
         s1 = s\<lparr>timer_frequency := frequency\<rparr>
     in if frequency = 0 then s1\<lparr>timer_counter := 1024\<rparr>
        else if frequency = 1 then s1\<lparr>timer_counter := 16\<rparr>
        else if frequency = 2 then s1\<lparr>timer_counter := 64\<rparr>
        else if frequency = 3 then s1\<lparr>timer_counter := 256\<rparr>
        else s1)"

definition request_interrupt :: "nat \<Rightarrow> Emulator \<Rightarrow> Emulator" where
  "request_interrupt ident s = s\<lparr>memory := MemoryRegister_set_bit IF ident (memory s)\<rparr>"

definition update_timers :: "int \<Rightarrow> Emulator \<Rightarrow> Emulator" where
  "update_timers cycles s =
    (let s1 = update_divider cycles s;
         new_freq = get_timer_frequency s1;
         s2 = (if timer_frequency s1 \<noteq> new_freq
               then (set_timer_frequency s1)\<lparr>timer_frequency := new_freq\<rparr> else s1)
     in if timer_enabled s2 then
          (let s3 = s2\<lparr>timer_counter := wrap_int (timer_counter s2 - cycles)\<rparr> in
           if timer_counter s3 \<le> 0 then
             (let timer_value = MemoryRegister_get TIMA (memory s3);
                  s4 = set_timer_frequency s3
              in if timer_value = 255 then
                   request_interrupt INTERRUPT_TIMER
                     (s4\<lparr>memory := MemoryRegister_set TIMA (MemoryRegister_get TMA (memory s4))
                                      (memory s4)\<rparr>)
                 else s4\<lparr>memory := MemoryRegister_set TIMA (timer_value + 1) (memory s4)\<rparr>)
           else s3)
        else s2)"

subsection \<open>Interrupts\<close>

text \<open>\<open>Emulator::service_interrupt\<close>. The \<open>switch\<close> has cases for V-Blank, LCDC, Timer and
  Joypad and no \<open>default\<close>: any other \<open>id\<close> (here \<open>ident\<close>) leaves \<open>reg_PC\<close> as it is.\<close>

definition service_interrupt :: "nat \<Rightarrow> Emulator \<Rightarrow> Emulator" where
  "service_interrupt ident s =
    (let s1 = s\<lparr>interrupt_master_enable := False\<rparr>;
         s2 = s1\<lparr>memory := MemoryRegister_clear_bit IF ident (memory s1)\<rparr>;
         s3 = s2\<lparr>reg_SP := reg_SP s2 - 1\<rparr>;
         s4 = s3\<lparr>memory := write_mem (memory s3) (reg_SP s3) (high_byte (reg_PC s3))\<rparr>;
         s5 = s4\<lparr>reg_SP := reg_SP s4 - 1\<rparr>;
         s6 = s5\<lparr>memory := write_mem (memory s5) (reg_SP s5) (low_byte (reg_PC s5))\<rparr>
     in if ident = INTERRUPT_VBLANK then s6\<lparr>reg_PC := 0x40\<rparr>
        else if ident = INTERRUPT_LCDC then s6\<lparr>reg_PC := 0x48\<rparr>
        else if ident = INTERRUPT_TIMER then s6\<lparr>reg_PC := 0x50\<rparr>
        else if ident = INTERRUPT_JOYPAD then s6\<lparr>reg_PC := 0x60\<rparr>
        else s6)"

text \<open>The body of the \<open>for\<close> loop of \<open>Emulator::do_interrupts\<close> at index \<open>i\<close>, and the loop
  \<open>for (int i = 0; i < 5; i++)\<close> as a fold over its five indices. The body has no \<open>break\<close>
  and does not test the master flag again.\<close>

definition do_interrupts_body :: "nat \<Rightarrow> Emulator \<Rightarrow> Emulator" where
  "do_interrupts_body i s =
    (if MemoryRegister_is_bit_set IF i (memory s) then
       (if MemoryRegister_is_bit_set IE i (memory s) then service_interrupt i s else s)
     else s)"

definition do_interrupts :: "Emulator \<Rightarrow> Emulator" where
  "do_interrupts s =
    (if interrupt_master_enable s then
       (if MemoryRegister_get IF (memory s) > 0
        then fold do_interrupts_body [0, 1, 2, 3, 4] s else s)
     else s)"

subsection \<open>LCD status\<close>

definition set_lcd_status :: "Emulator \<Rightarrow> Emulator" where
  "set_lcd_status s =
    (let status = MemoryRegister_get STAT (memory s) in
     if is_lcd_enabled s = False then
       (let s1 = s\<lparr>scanline_counter := 456\<rparr>;
            s2 = s1\<lparr>memory := MemoryRegister_clear LY (memory s1)\<rparr>;
            status1 = status AND 252;
            status2 = set_bit_of status1 0
        in s2\<lparr>memory := MemoryRegister_set STAT status2 (memory s2)\<rparr>)
     else
       (let current_line = MemoryRegister_get LY (memory s);
            current_mode = status AND 0x03;
            mode2_threshold = 456 - 80;
            mode3_threshold = mode2_threshold - 172;
            (mode, status1, do_interrupt) =
              (if current_line \<ge> 144 then
                 (let st = clear_bit_of (set_bit_of status BIT_0) BIT_1
                  in (1, st, is_bit_set st BIT_4))
               else if scanline_counter s \<ge> mode2_threshold then
                 (let st = clear_bit_of (set_bit_of status BIT_1) BIT_0
                  in (2, st, is_bit_set st BIT_5))
               else if scanline_counter s \<ge> mode3_threshold then
                 (3, set_bit_of (set_bit_of status BIT_1) BIT_0, False)
               else
                 (let st = clear_bit_of (clear_bit_of status BIT_1) BIT_0
                  in (0, st, is_bit_set st BIT_3)));
            s1 = (if do_interrupt \<and> mode \<noteq> current_mode
                  then request_interrupt INTERRUPT_LCDC s else s);
            (status2, s2) =
              (if MemoryRegister_get LY (memory s1) = MemoryRegister_get LYC (memory s1) then
                 (let st = set_bit_of status1 BIT_2
                  in (st, if is_bit_set st BIT_6 then request_interrupt INTERRUPT_LCDC s1 else s1))
               else (clear_bit_of status1 BIT_2, s1))
        in s2\<lparr>memory := MemoryRegister_set STAT status2 (memory s2)\<rparr>))"

definition update_scanline :: "int \<Rightarrow> Emulator \<Rightarrow> Emulator" where
  "update_scanline cycles s =
    (let s1 = set_lcd_status s in
     if is_lcd_enabled s1 then
       (let s2 = s1\<lparr>scanline_counter := wrap_int (scanline_counter s1 - cycles)\<rparr> in
        if scanline_counter s2 \<le> 0 then
          (let current_scanline = MemoryRegister_get LY (memory s2);
               s3 = s2\<lparr>memory := MemoryRegister_set LY (current_scanline + 1) (memory s2)\<rparr>;
               s4 = s3\<lparr>scanline_counter := 456\<rparr>
           in if current_scanline = 144 then request_interrupt 0 s4
              else if current_scanline > 153 then s4\<lparr>memory := MemoryRegister_clear LY (memory s4)\<rparr>
              else if current_scanline < 144 then draw_scanline s4
              else s4)
        else s2)
     else s1)"

subsection \<open>The main loop\<close>

text \<open>One pass through the body of the inner \<open>while\<close> loop of \<open>Emulator::run\<close>: fetch the
  opcode at \<open>reg_PC\<close>, decode and execute it (the value \<open>parse_opcode\<close> returns is dropped), feed
  \<open>num_cycles\<close> to the timers and the LCD, serve interrupts, clear \<open>num_cycles\<close>. The frame
  counter \<open>current_cycle\<close> is local to \<open>run\<close> and only decides how often the body runs.\<close>

definition run_body :: "Emulator \<Rightarrow> Emulator option" where
  "run_body s =
    (case read (memory s) (reg_PC s) of
       None \<Rightarrow> None
     | Some code \<Rightarrow>
        (case parse_opcode code s of
           None \<Rightarrow> None
         | Some (opbytes, s1) \<Rightarrow>
            (let s2 = update_timers (num_cycles s1) s1;
                 s3 = update_scanline (num_cycles s2) s2;
                 s4 = do_interrupts s3
             in Some (s4\<lparr>num_cycles := 0\<rparr>))))"

text \<open>\<open>CPU::init\<close> and \<open>Memory::Memory()\<close> give the registers and the memory of a fresh
  emulator. Modelled from the spec: the members the headers initialise are not in the sources;
  the scanline counter starts at 456 as the spec says, the others at zero and the master enable
  off. The theorems below that start from this state set every field they depend on.\<close>

definition Emulator_init :: Emulator where
  "Emulator_init =
    \<lparr>reg_A = 0, reg_B = 0, reg_C = 0, reg_D = 0, reg_E = 0, reg_F = 0, reg_H = 0, reg_L = 0,
     reg_SP = 0xFFFE, reg_PC = 0, interrupt_master_enable = False, num_cycles = 0,
     memory = Memory_init, divider_counter = 0, timer_counter = 0, timer_frequency = 0,
     scanline_counter = 456\<rparr>"


section \<open>The memory map as address ranges\<close>






section \<open>Address decoding\<close>

text \<open>The two switches of \<open>Memory::read\<close> and \<open>Memory::write\<close> look at the top two nibbles of
  the address. The lemmas below turn the masks into arithmetic on \<open>unat\<close>, and a range of
  addresses into the cases the switches take.\<close>

lemma bit_index_cases:
  "i < (16::nat) \<Longrightarrow> i \<in> {0, 1, 2, 3, 4, 5, 6, 7, 8, 9, 10, 11, 12, 13, 14, 15}"
  by (simp, arith)

lemma nibble_cases: "k < (14::nat) \<Longrightarrow> k \<in> {0, 1, 2, 3, 4, 5, 6, 7, 8, 9, 10, 11, 12, 13}"
  by (simp, arith)

lemma sel_shift: "(a::16 word) AND 0xF000 = push_bit 12 (drop_bit 12 a)"
proof (rule bit_word_eqI)
  fix i :: nat assume "i < LENGTH(16)"
  then have "i \<in> {0, 1, 2, 3, 4, 5, 6, 7, 8, 9, 10, 11, 12, 13, 14, 15}"
    by (intro bit_index_cases) simp
  then show "bit (a AND 0xF000) i = bit (push_bit 12 (drop_bit 12 a)) i"
    by (elim insertE emptyE) (simp_all add: bit_simps)
qed

lemma unat_sel: "unat ((a::16 word) AND 0xF000) = unat a div 4096 * 4096"
proof -
  have "unat a < 65536" using unsigned_less[of a, where 'a=nat] by simp
  then have "unat a div 4096 * 4096 < 65536" by arith
  moreover have "unat (push_bit 12 (drop_bit 12 a)) = take_bit 16 (push_bit 12 (unat (drop_bit 12 a)))"
    by (simp add: unsigned_push_bit_eq)
  moreover have "unat (drop_bit 12 a) = unat a div 4096"
    by (simp add: drop_bit_eq_div unat_div)
  ultimately show ?thesis
    by (simp only: sel_shift) (simp add: push_bit_eq_mult take_bit_eq_mod)
qed

lemma sub_shift: "(a::16 word) AND 0x0F00 = push_bit 8 (take_bit 4 (drop_bit 8 a))"
proof (rule bit_word_eqI)
  fix i :: nat assume "i < LENGTH(16)"
  then have "i \<in> {0, 1, 2, 3, 4, 5, 6, 7, 8, 9, 10, 11, 12, 13, 14, 15}"
    by (intro bit_index_cases) simp
  then show "bit (a AND 0x0F00) i = bit (push_bit 8 (take_bit 4 (drop_bit 8 a))) i"
    by (elim insertE emptyE) (simp_all add: bit_simps)
qed

lemma unat_sub_sel: "unat ((a::16 word) AND 0x0F00) = unat a div 256 mod 16 * 256"
proof -
  have "unat a div 256 mod 16 * 256 < 65536" by arith
  moreover have "unat (push_bit 8 (take_bit 4 (drop_bit 8 a))) = take_bit 16 (push_bit 8 (unat (take_bit 4 (drop_bit 8 a))))"
    by (simp add: unsigned_push_bit_eq)
  moreover have "unat (take_bit 4 (drop_bit 8 a)) = unat a div 256 mod 16"
    by (simp add: take_bit_eq_mod drop_bit_eq_div unat_div unat_mod)
  ultimately show ?thesis
    by (simp only: sub_shift) (simp add: push_bit_eq_mult take_bit_eq_mod)
qed

lemma idx_8k: "unat ((a::16 word) AND 0x1FFF) = unat a mod 8192"
proof -
  have "a AND 0x1FFF = take_bit 13 a" by (simp add: take_bit_eq_mask mask_eq_exp_minus_1)
  then show ?thesis by (simp add: take_bit_eq_mod unat_mod)
qed


lemma sel_eq: "(a::16 word) AND 0xF000 = of_nat (unat a div 4096 * 4096)"
proof -
  have "a AND 0xF000 = of_nat (unat (a AND 0xF000))" by simp
  then show ?thesis by (simp only: unat_sel)
qed

lemma sub_eq: "(a::16 word) AND 0x0F00 = of_nat (unat a div 256 mod 16 * 256)"
proof -
  have "a AND 0x0F00 = of_nat (unat (a AND 0x0F00))" by simp
  then show ?thesis by (simp only: unat_sub_sel)
qed

lemma mod16_lt14: "240 \<le> q \<Longrightarrow> q \<le> 253 \<Longrightarrow> q mod (16::nat) < 14"
  by arith

lemma wram_region:
  assumes "0xC000 \<le> (a::16 word)" and "a \<le> 0xFDFF"
  shows "a AND 0xF000 = 0xC000 \<or> a AND 0xF000 = 0xD000 \<or> a AND 0xF000 = 0xE000 \<or>
         (a AND 0xF000 = 0xF000 \<and>
          (a AND 0x0F00 = 0x000 \<or> a AND 0x0F00 = 0x100 \<or> a AND 0x0F00 = 0x200 \<or>
           a AND 0x0F00 = 0x300 \<or> a AND 0x0F00 = 0x400 \<or> a AND 0x0F00 = 0x500 \<or>
           a AND 0x0F00 = 0x600 \<or> a AND 0x0F00 = 0x700 \<or> a AND 0x0F00 = 0x800 \<or>
           a AND 0x0F00 = 0x900 \<or> a AND 0x0F00 = 0xA00 \<or> a AND 0x0F00 = 0xB00 \<or>
           a AND 0x0F00 = 0xC00 \<or> a AND 0x0F00 = 0xD00))"
proof -
  define n where "n = unat a"
  from assms have r: "49152 \<le> n" "n \<le> 65023"
    by (simp_all add: word_le_nat_alt n_def)
  have A: "n div 4096 = 12 \<or> n div 4096 = 13 \<or> n div 4096 = 14 \<or> n div 4096 = 15"
    using r by arith
  have B: "n div 256 mod 16 < 14" if "n div 4096 = 15"
  proof -
    from that r have "240 \<le> n div 256 \<and> n div 256 \<le> 253" by arith
    then show ?thesis by (rule_tac mod16_lt14) simp_all
  qed
  have s: "a AND 0xF000 = of_nat (n div 4096 * 4096)" 
    unfolding n_def by (rule sel_eq)
  have t: "a AND 0x0F00 = of_nat (n div 256 mod 16 * 256)" 
    unfolding n_def by (rule sub_eq)
  from A show ?thesis
  proof (elim disjE)
    assume h: "n div 4096 = 15"
    from nibble_cases[OF B[OF h]] show ?thesis
      unfolding s t h by (elim insertE emptyE) simp_all
  qed (simp_all add: s)
qed


lemma read_wram_region:
  assumes "0xC000 \<le> a" and "a \<le> 0xFDFF"
  shows "read m a = Some (WRAM m (unat a mod 8192))"
  using wram_region[OF assms] unfolding read_def Let_def idx_8k
  by (elim disjE conjE) simp_all

lemma write_wram_region:
  assumes "0xC000 \<le> a" and "a \<le> 0xFDFF"
  shows "write_mem m a v = m\<lparr>WRAM := (WRAM m)(unat a mod 8192 := v)\<rparr>"
  using wram_region[OF assms] unfolding write_mem_def Let_def idx_8k
  by (elim disjE conjE) simp_all

lemma mod8k_echo: "57344 \<le> n \<Longrightarrow> n \<le> 65023 \<Longrightarrow> n mod (8192::nat) = n - 57344"
proof -
  have "k < 8192 \<Longrightarrow> (57344 + k) mod 8192 = k" for k :: nat
    using mod_mult_self4[of 8192 7 k] by simp
  from this[of "n - 57344"] show "57344 \<le> n \<Longrightarrow> n \<le> 65023 \<Longrightarrow> n mod 8192 = n - 57344"
    by simp
qed

lemma mod8k_wram: "49152 \<le> n \<Longrightarrow> n \<le> 57343 \<Longrightarrow> n mod (8192::nat) = n - 49152"
proof -
  have "k < 8192 \<Longrightarrow> (49152 + k) mod 8192 = k" for k :: nat
    using mod_mult_self4[of 8192 6 k] by simp
  from this[of "n - 49152"] show "49152 \<le> n \<Longrightarrow> n \<le> 57343 \<Longrightarrow> n mod 8192 = n - 49152"
    by simp
qed

lemma wram_cell_of_echo:
  fixes a :: Address
  assumes "0xE000 \<le> a" and "a \<le> 0xFDFF"
  shows "0xC000 \<le> 0xC000 + (a AND 0x1FFF)" and "0xC000 + (a AND 0x1FFF) \<le> 0xDDFF"
    and "unat (0xC000 + (a AND 0x1FFF)) mod 8192 = unat a mod 8192"
proof -
  from assms have r: "57344 \<le> unat a" "unat a \<le> 65023"
    by (simp_all add: word_le_nat_alt)
  note m = mod8k_echo[OF r]
  have "unat (0xC000 :: Address) + unat (a AND 0x1FFF) < 2 ^ LENGTH(16)"
    using r by (simp add: idx_8k m)
  then have "unat (0xC000 + (a AND 0x1FFF)) = unat (0xC000 :: Address) + unat (a AND 0x1FFF)"
    by (rule unat_add_lem[THEN iffD1])
  then have u: "unat (0xC000 + (a AND 0x1FFF)) = unat a - 8192"
    using r by (simp add: idx_8k m)
  show "0xC000 \<le> 0xC000 + (a AND 0x1FFF)" "0xC000 + (a AND 0x1FFF) \<le> 0xDDFF"
    using r by (simp_all add: word_le_nat_alt u)
  have "(unat a - 8192) mod 8192 = (unat a - 8192) - 49152"
    by (rule mod8k_wram) (use r in simp_all)
  then show "unat (0xC000 + (a AND 0x1FFF)) mod 8192 = unat a mod 8192"
    unfolding u m using r by simp
qed

section \<open>C8: the echo region aliases working RAM\<close>

text \<open>
  C8. For every address \<open>a\<close> in 0xE000-0xFDFF, \<open>read a\<close> returns the byte of the working-RAM
  cell \<open>a & 0x1FFF\<close>, which is what reading the corresponding working-RAM address
  \<open>0xC000 + (a & 0x1FFF)\<close> returns, and a write to either of the two addresses is returned by
  a following read of the other.
\<close>

theorem echo_region_aliases_wram:
  fixes a :: Address
  assumes "0xE000 \<le> a" and "a \<le> 0xFDFF"
  shows "read m a = Some (WRAM m (unat (a AND 0x1FFF))) \<and>
         read m a = read m (0xC000 + (a AND 0x1FFF)) \<and>
         read (write_mem m a v) (0xC000 + (a AND 0x1FFF)) = Some v \<and>
         read (write_mem m (0xC000 + (a AND 0x1FFF)) v) a = Some v"
proof -
  from assms have e: "0xC000 \<le> a" "a \<le> 0xFDFF"
    by (simp_all add: word_le_nat_alt)
  note w = wram_cell_of_echo[OF assms]
  from w(2) have w2: "0xC000 + (a AND 0x1FFF) \<le> 0xFDFF"
    by (simp add: word_le_nat_alt)
  show ?thesis
    by (simp add: read_wram_region[OF e] read_wram_region[OF w(1) w2]
        write_wram_region[OF e] write_wram_region[OF w(1) w2] w(3) idx_8k)
qed

theorem echo_region_aliases_wram_witness:
  "(0xE000 :: Address) \<le> 0xE123 \<and> (0xE123 :: Address) \<le> 0xFDFF \<and>
   read Memory_init 0xE123 = Some 0 \<and>
   read Memory_init 0xE123 = read Memory_init 0xC123 \<and>
   read (write_mem Memory_init 0xE123 0x5A) 0xC123 = Some 0x5A \<and>
   read (write_mem Memory_init 0xC123 0x5A) 0xE123 = Some 0x5A"
proof -
  have h1: "(0xE000 :: Address) \<le> 0xE123" and h2: "(0xE123 :: Address) \<le> 0xFDFF"
    by simp_all
  have c: "0xC000 + ((0xE123 :: Address) AND 0x1FFF) = 0xC123"
    and i: "unat ((0xE123 :: Address) AND 0x1FFF) = 0x123"
    and z: "WRAM Memory_init 0x123 = 0"
    by (simp_all add: Memory_init_def)
  from echo_region_aliases_wram[OF h1 h2, of Memory_init "0x5A"] h1 h2
  show ?thesis unfolding c i z by blast
qed

section \<open>Reads and writes follow the memory map\<close>




section \<open>C9: reads of the cartridge area past the end of the ROM\<close>

text \<open>Both ROM cases of \<open>Memory::read\<close> index \<open>CART_ROM\<close> with the address itself and no
  test against the vector's size.\<close>

lemma rom_region:
  fixes a :: Address
  assumes "a < 0x8000"
  shows "a AND 0xF000 = 0x0000 \<or> a AND 0xF000 = 0x1000 \<or> a AND 0xF000 = 0x2000 \<or>
         a AND 0xF000 = 0x3000 \<or> a AND 0xF000 = 0x4000 \<or> a AND 0xF000 = 0x5000 \<or>
         a AND 0xF000 = 0x6000 \<or> a AND 0xF000 = 0x7000"
proof -
  define n where "n = unat a"
  from assms have r: "n < 32768"
    by (simp add: word_less_nat_alt n_def)
  have A: "n div 4096 = 0 \<or> n div 4096 = 1 \<or> n div 4096 = 2 \<or> n div 4096 = 3 \<or>
           n div 4096 = 4 \<or> n div 4096 = 5 \<or> n div 4096 = 6 \<or> n div 4096 = 7"
    using r by arith
  have s: "a AND 0xF000 = of_nat (n div 4096 * 4096)"
    unfolding n_def by (rule sel_eq)
  from A show ?thesis
    unfolding s by (elim disjE) simp_all
qed

lemma read_rom_region:
  assumes "a < 0x8000"
  shows "read m a = vector_at (CART_ROM m) (unat a)"
  using rom_region[OF assms] unfolding read_def Let_def
  by (elim disjE) simp_all

lemma read_past_rom_end:
  assumes "a < 0x8000" and "length (CART_ROM m) \<le> unat a"
  shows "read m a = None"
  using assms(2) by (simp add: read_rom_region[OF assms(1)] vector_at_def)

text \<open>
  C9. The claim is that a read of an address in 0x0000-0x7FFF at or beyond the length of the
  loaded ROM returns 0xFF and never indexes out of bounds. In the code the read indexes the
  vector at the address: with a two-byte ROM, or with no ROM loaded at all (the state the
  constructor leaves), the read of 0x0100 is an out-of-bounds access and yields no 0xFF.
\<close>

theorem read_past_rom_end_is_out_of_bounds:
  "read (Memory_init\<lparr>CART_ROM := [0x00, 0xC3]\<rparr>) 0x0100 = None \<and>
   read Memory_init 0x0100 = None \<and>
   read Memory_init 0x0100 \<noteq> Some 0xFF"
  by (simp add: read_def vector_at_def Memory_init_def)

section \<open>The decoder, case by case\<close>

text \<open>What each operation leaves alone, and the \<open>switch\<close> of \<open>parse_opcode\<close> evaluated at
  each of its 186 case labels.\<close>

lemmas flag_defs = FLAG_ZERO_def FLAG_SUB_def FLAG_HALF_CARRY_def FLAG_CARRY_def
lemmas register_defs = TIMA_def TMA_def TAC_def LCDC_def LYC_def IE_def DIV_def IF_def STAT_def LY_def
lemmas bit_defs = set_bit_of_def clear_bit_of_def is_bit_set_def BIT_0_def BIT_1_def BIT_2_def
  BIT_3_def BIT_4_def BIT_5_def BIT_6_def
lemmas MemoryRegister_defs = MemoryRegister_get_def MemoryRegister_set_def
  MemoryRegister_is_bit_set_def MemoryRegister_set_bit_def MemoryRegister_clear_bit_def
  MemoryRegister_clear_def
lemmas interrupt_defs = INTERRUPT_VBLANK_def INTERRUPT_LCDC_def INTERRUPT_TIMER_def
  INTERRUPT_SERIAL_def INTERRUPT_JOYPAD_def

lemma set_reg_fields [simp]:
  "reg_H (set_reg r v s) = (if r = Reg_H then v else reg_H s)"
  "reg_L (set_reg r v s) = (if r = Reg_L then v else reg_L s)"
  "reg_PC (set_reg r v s) = reg_PC s"
  "reg_SP (set_reg r v s) = reg_SP s"
  "memory (set_reg r v s) = memory s"
  by (cases r; simp)+

lemma set_flag_fields [simp]:
  "reg_H (set_flag f b s) = reg_H s"
  "reg_L (set_flag f b s) = reg_L s"
  "reg_PC (set_flag f b s) = reg_PC s"
  "reg_SP (set_flag f b s) = reg_SP s"
  "memory (set_flag f b s) = memory s"
  by (simp_all add: set_flag_def)

lemma get_reg_set_flag [simp]: "r \<noteq> Reg_F \<Longrightarrow> get_reg r (set_flag f b s) = get_reg r s"
  by (cases r) (simp_all add: set_flag_def)

lemma load_fields [simp]:
  "reg_H (LD_r_n r v s) = (if r = Reg_H then v else reg_H s)"
  "reg_L (LD_r_n r v s) = (if r = Reg_L then v else reg_L s)"
  "reg_PC (LD_r_n r v s) = reg_PC s"
  "reg_H (LD_addr_n a v s) = reg_H s"
  "reg_L (LD_addr_n a v s) = reg_L s"
  "reg_PC (LD_addr_n a v s) = reg_PC s"
  "reg_H (LD_SP_nn lsb msb s) = reg_H s"
  "reg_L (LD_SP_nn lsb msb s) = reg_L s"
  "reg_PC (LD_SP_nn lsb msb s) = reg_PC s"
  "reg_H (LD_addr_nn a w s) = reg_H s"
  "reg_L (LD_addr_nn a w s) = reg_L s"
  "reg_PC (LD_addr_nn a w s) = reg_PC s"
  "reg_PC (LD_rr_nn rh rl lsb msb s) = reg_PC s"
  "reg_PC (LD_rr_word rh rl w s) = reg_PC s"
  by (simp_all add: LD_r_n_def LD_addr_n_def LD_SP_nn_def LD_addr_nn_def LD_rr_nn_def
      LD_rr_word_def Let_def)

lemma load_pair_fields [simp]:
  "rh \<noteq> Reg_H \<Longrightarrow> rl \<noteq> Reg_H \<Longrightarrow> reg_H (LD_rr_nn rh rl lsb msb s) = reg_H s"
  "rh \<noteq> Reg_L \<Longrightarrow> rl \<noteq> Reg_L \<Longrightarrow> reg_L (LD_rr_nn rh rl lsb msb s) = reg_L s"
  by (simp_all add: LD_rr_nn_def)

lemma stack_fields [simp]:
  "reg_H (PUSH hi lo s) = reg_H s"
  "reg_L (PUSH hi lo s) = reg_L s"
  "reg_PC (PUSH hi lo s) = reg_PC s"
  by (simp_all add: PUSH_def Let_def)

lemma alu_fields [simp]:
  "r \<noteq> Reg_H \<Longrightarrow> reg_H (ADD r v s) = reg_H s"
  "r \<noteq> Reg_L \<Longrightarrow> reg_L (ADD r v s) = reg_L s"
  "reg_PC (ADD r v s) = reg_PC s"
  "r \<noteq> Reg_H \<Longrightarrow> reg_H (SUB r v s) = reg_H s"
  "r \<noteq> Reg_L \<Longrightarrow> reg_L (SUB r v s) = reg_L s"
  "reg_PC (SUB r v s) = reg_PC s"
  "r \<noteq> Reg_H \<Longrightarrow> reg_H (AND_op r v s) = reg_H s"
  "r \<noteq> Reg_L \<Longrightarrow> reg_L (AND_op r v s) = reg_L s"
  "reg_PC (AND_op r v s) = reg_PC s"
  "r \<noteq> Reg_H \<Longrightarrow> reg_H (OR_op r v s) = reg_H s"
  "r \<noteq> Reg_L \<Longrightarrow> reg_L (OR_op r v s) = reg_L s"
  "reg_PC (OR_op r v s) = reg_PC s"
  "r \<noteq> Reg_H \<Longrightarrow> reg_H (XOR_op r v s) = reg_H s"
  "r \<noteq> Reg_L \<Longrightarrow> reg_L (XOR_op r v s) = reg_L s"
  "reg_PC (XOR_op r v s) = reg_PC s"
  "reg_H (CP r v s) = reg_H s"
  "reg_L (CP r v s) = reg_L s"
  "reg_PC (CP r v s) = reg_PC s"
  by (simp_all add: ADD_def SUB_def AND_op_def OR_op_def XOR_op_def CP_def Let_def)

lemma alu_carry_fields [simp]:
  "r \<noteq> Reg_H \<Longrightarrow> reg_H (ADDC r v s) = reg_H s"
  "r \<noteq> Reg_L \<Longrightarrow> reg_L (ADDC r v s) = reg_L s"
  "reg_PC (ADDC r v s) = reg_PC s"
  "r \<noteq> Reg_H \<Longrightarrow> reg_H (SUBC r v s) = reg_H s"
  "r \<noteq> Reg_L \<Longrightarrow> reg_L (SUBC r v s) = reg_L s"
  "reg_PC (SUBC r v s) = reg_PC s"
  by (simp_all add: ADDC_def SUBC_def Let_def)

lemma inc_dec_fields [simp]:
  "reg_H (snd (INC_byte b s)) = reg_H s"
  "reg_L (snd (INC_byte b s)) = reg_L s"
  "reg_PC (snd (INC_byte b s)) = reg_PC s"
  "reg_H (snd (DEC_byte b s)) = reg_H s"
  "reg_L (snd (DEC_byte b s)) = reg_L s"
  "reg_PC (snd (DEC_byte b s)) = reg_PC s"
  "r \<noteq> Reg_H \<Longrightarrow> reg_H (INC r s) = reg_H s"
  "r \<noteq> Reg_L \<Longrightarrow> reg_L (INC r s) = reg_L s"
  "reg_PC (INC r s) = reg_PC s"
  "r \<noteq> Reg_H \<Longrightarrow> reg_H (DEC r s) = reg_H s"
  "r \<noteq> Reg_L \<Longrightarrow> reg_L (DEC r s) = reg_L s"
  "reg_PC (DEC r s) = reg_PC s"
  "reg_PC (dec_reg_pair rh rl s) = reg_PC s"
  "reg_PC (inc_reg_pair rh rl s) = reg_PC s"
  by (simp_all add: INC_byte_def DEC_byte_def INC_def DEC_def dec_reg_pair_def inc_reg_pair_def
      Let_def split: prod.split)

lemmas read_op_defs = LD_r_addr_def ADD_addr_def ADDC_addr_def SUB_addr_def SUBC_addr_def
  AND_op_addr_def OR_op_addr_def XOR_op_addr_def CP_addr_def INC_addr_def DEC_addr_def POP_def

lemma opcode_switch_simps:
  "opcode_switch 0x06 value value2 s = Some (2, LD_r_n Reg_B value s)"
  "opcode_switch 0x0E value value2 s = Some (2, LD_r_n Reg_C value s)"
  "opcode_switch 0x16 value value2 s = Some (2, LD_r_n Reg_D value s)"
  "opcode_switch 0x1E value value2 s = Some (2, LD_r_n Reg_E value s)"
  "opcode_switch 0x26 value value2 s = Some (2, LD_r_n Reg_H value s)"
  "opcode_switch 0x2E value value2 s = Some (2, LD_r_n Reg_L value s)"
  "opcode_switch 0x7F value value2 s = Some (1, LD_r_n Reg_A (reg_A s) s)"
  "opcode_switch 0x78 value value2 s = Some (1, LD_r_n Reg_A (reg_B s) s)"
  "opcode_switch 0x79 value value2 s = Some (1, LD_r_n Reg_A (reg_C s) s)"
  "opcode_switch 0x7A value value2 s = Some (1, LD_r_n Reg_A (reg_D s) s)"
  "opcode_switch 0x7B value value2 s = Some (1, LD_r_n Reg_A (reg_E s) s)"
  "opcode_switch 0x7C value value2 s = Some (1, LD_r_n Reg_A (reg_H s) s)"
  "opcode_switch 0x7D value value2 s = Some (1, LD_r_n Reg_A (reg_L s) s)"
  "opcode_switch 0x7E value value2 s = map_option (Pair 1) (LD_r_addr Reg_A (address (reg_H s) (reg_L s)) s)"
  "opcode_switch 0x40 value value2 s = Some (1, LD_r_n Reg_B (reg_B s) s)"
  "opcode_switch 0x41 value value2 s = Some (1, LD_r_n Reg_B (reg_C s) s)"
  "opcode_switch 0x42 value value2 s = Some (1, LD_r_n Reg_B (reg_D s) s)"
  "opcode_switch 0x43 value value2 s = Some (1, LD_r_n Reg_B (reg_E s) s)"
  "opcode_switch 0x44 value value2 s = Some (1, LD_r_n Reg_B (reg_H s) s)"
  "opcode_switch 0x45 value value2 s = Some (1, LD_r_n Reg_B (reg_L s) s)"
  "opcode_switch 0x46 value value2 s = map_option (Pair 1) (LD_r_addr Reg_B (address (reg_H s) (reg_L s)) s)"
  "opcode_switch 0x48 value value2 s = Some (1, LD_r_n Reg_C (reg_B s) s)"
  "opcode_switch 0x49 value value2 s = Some (1, LD_r_n Reg_C (reg_C s) s)"
  "opcode_switch 0x4A value value2 s = Some (1, LD_r_n Reg_C (reg_D s) s)"
  "opcode_switch 0x4B value value2 s = Some (1, LD_r_n Reg_C (reg_E s) s)"
  "opcode_switch 0x4C value value2 s = Some (1, LD_r_n Reg_C (reg_H s) s)"
  "opcode_switch 0x4D value value2 s = Some (1, LD_r_n Reg_C (reg_L s) s)"
  "opcode_switch 0x4E value value2 s = map_option (Pair 1) (LD_r_addr Reg_C (address (reg_H s) (reg_L s)) s)"
  "opcode_switch 0x50 value value2 s = Some (1, LD_r_n Reg_D (reg_B s) s)"
  "opcode_switch 0x51 value value2 s = Some (1, LD_r_n Reg_D (reg_C s) s)"
  "opcode_switch 0x52 value value2 s = Some (1, LD_r_n Reg_D (reg_D s) s)"
  "opcode_switch 0x53 value value2 s = Some (1, LD_r_n Reg_D (reg_E s) s)"
  "opcode_switch 0x54 value value2 s = Some (1, LD_r_n Reg_D (reg_H s) s)"
  "opcode_switch 0x55 value value2 s = Some (1, LD_r_n Reg_D (reg_L s) s)"
  "opcode_switch 0x56 value value2 s = map_option (Pair 1) (LD_r_addr Reg_D (address (reg_H s) (reg_L s)) s)"
  "opcode_switch 0x58 value value2 s = Some (1, LD_r_n Reg_E (reg_B s) s)"
  "opcode_switch 0x59 value value2 s = Some (1, LD_r_n Reg_E (reg_C s) s)"
  "opcode_switch 0x5A value value2 s = Some (1, LD_r_n Reg_E (reg_D s) s)"
  "opcode_switch 0x5B value value2 s = Some (1, LD_r_n Reg_E (reg_E s) s)"
  "opcode_switch 0x5C value value2 s = Some (1, LD_r_n Reg_E (reg_H s) s)"
  "opcode_switch 0x5D value value2 s = Some (1, LD_r_n Reg_E (reg_L s) s)"
  "opcode_switch 0x5E value value2 s = map_option (Pair 1) (LD_r_addr Reg_E (address (reg_H s) (reg_L s)) s)"
  "opcode_switch 0x60 value value2 s = Some (1, LD_r_n Reg_H (reg_B s) s)"
  "opcode_switch 0x61 value value2 s = Some (1, LD_r_n Reg_H (reg_C s) s)"
  "opcode_switch 0x62 value value2 s = Some (1, LD_r_n Reg_H (reg_D s) s)"
  "opcode_switch 0x63 value value2 s = Some (1, LD_r_n Reg_H (reg_E s) s)"
  "opcode_switch 0x64 value value2 s = Some (1, LD_r_n Reg_H (reg_H s) s)"
  "opcode_switch 0x65 value value2 s = Some (1, LD_r_n Reg_H (reg_L s) s)"
  "opcode_switch 0x66 value value2 s = map_option (Pair 1) (LD_r_addr Reg_H (address (reg_H s) (reg_L s)) s)"
  "opcode_switch 0x68 value value2 s = Some (1, LD_r_n Reg_L (reg_B s) s)"
  "opcode_switch 0x69 value value2 s = Some (1, LD_r_n Reg_L (reg_C s) s)"
  "opcode_switch 0x6A value value2 s = Some (1, LD_r_n Reg_L (reg_D s) s)"
  "opcode_switch 0x6B value value2 s = Some (1, LD_r_n Reg_L (reg_E s) s)"
  "opcode_switch 0x6C value value2 s = Some (1, LD_r_n Reg_L (reg_H s) s)"
  "opcode_switch 0x6D value value2 s = Some (1, LD_r_n Reg_L (reg_L s) s)"
  "opcode_switch 0x6E value value2 s = map_option (Pair 1) (LD_r_addr Reg_L (address (reg_H s) (reg_L s)) s)"
  "opcode_switch 0x70 value value2 s = Some (1, LD_addr_n (address (reg_H s) (reg_L s)) (reg_B s) s)"
  "opcode_switch 0x71 value value2 s = Some (1, LD_addr_n (address (reg_H s) (reg_L s)) (reg_C s) s)"
  "opcode_switch 0x72 value value2 s = Some (1, LD_addr_n (address (reg_H s) (reg_L s)) (reg_D s) s)"
  "opcode_switch 0x73 value value2 s = Some (1, LD_addr_n (address (reg_H s) (reg_L s)) (reg_E s) s)"
  "opcode_switch 0x74 value value2 s = Some (1, LD_addr_n (address (reg_H s) (reg_L s)) (reg_H s) s)"
  "opcode_switch 0x75 value value2 s = Some (1, LD_addr_n (address (reg_H s) (reg_L s)) (reg_L s) s)"
  "opcode_switch 0x36 value value2 s = Some (2, LD_addr_n (address (reg_H s) (reg_L s)) value s)"
  "opcode_switch 0x0A value value2 s = map_option (Pair 1) (LD_r_addr Reg_A (address (reg_B s) (reg_C s)) s)"
  "opcode_switch 0x1A value value2 s = map_option (Pair 1) (LD_r_addr Reg_A (address (reg_D s) (reg_E s)) s)"
  "opcode_switch 0xFA value value2 s = map_option (Pair 3) (LD_r_addr Reg_A (address value2 value) s)"
  "opcode_switch 0x47 value value2 s = Some (1, LD_r_n Reg_B (reg_A s) s)"
  "opcode_switch 0x4F value value2 s = Some (1, LD_r_n Reg_C (reg_A s) s)"
  "opcode_switch 0x57 value value2 s = Some (1, LD_r_n Reg_D (reg_A s) s)"
  "opcode_switch 0x5F value value2 s = Some (1, LD_r_n Reg_E (reg_A s) s)"
  "opcode_switch 0x67 value value2 s = Some (1, LD_r_n Reg_H (reg_A s) s)"
  "opcode_switch 0x6F value value2 s = Some (1, LD_r_n Reg_L (reg_A s) s)"
  "opcode_switch 0x02 value value2 s = Some (1, LD_addr_n (address (reg_B s) (reg_C s)) (reg_A s) s)"
  "opcode_switch 0x12 value value2 s = Some (1, LD_addr_n (address (reg_D s) (reg_E s)) (reg_A s) s)"
  "opcode_switch 0x77 value value2 s = Some (1, LD_addr_n (address (reg_H s) (reg_L s)) (reg_A s) s)"
  "opcode_switch 0xEA value value2 s = Some (3, LD_addr_n (address value2 value) (reg_A s) s)"
  "opcode_switch 0xF2 value value2 s = map_option (Pair 1) (map_option (\<lambda>v. LD_r_n Reg_A v s) (read (memory s) (0xFF00 + ucast (reg_C s))))"
  "opcode_switch 0xE2 value value2 s = Some (1, LD_addr_n (0xFF00 + ucast (reg_C s)) (reg_A s) s)"
  "opcode_switch 0x3A value value2 s = map_option (\<lambda>t. (1, dec_reg_pair Reg_H Reg_L t)) (LD_r_addr Reg_A (address (reg_H s) (reg_L s)) s)"
  "opcode_switch 0x32 value value2 s = Some (1, dec_reg_pair Reg_H Reg_L (LD_addr_n (address (reg_H s) (reg_L s)) (reg_A s) s))"
  "opcode_switch 0x2A value value2 s = map_option (\<lambda>t. (1, inc_reg_pair Reg_H Reg_L t)) (LD_r_addr Reg_A (address (reg_H s) (reg_L s)) s)"
  "opcode_switch 0x22 value value2 s = Some (1, inc_reg_pair Reg_H Reg_L (LD_addr_n (address (reg_H s) (reg_L s)) (reg_A s) s))"
  "opcode_switch 0xE0 value value2 s = Some (1, s\<lparr>memory := write_mem (memory s) (0xFF00 + ucast value) (reg_A s)\<rparr>)"
  "opcode_switch 0xF0 value value2 s = map_option (Pair 1) (map_option (\<lambda>v. LD_r_n Reg_A v s) (read (memory s) (0xFF00 + ucast value)))"
  "opcode_switch 0x01 value value2 s = Some (3, LD_rr_nn Reg_B Reg_C value value2 s)"
  "opcode_switch 0x11 value value2 s = Some (3, LD_rr_nn Reg_D Reg_E value value2 s)"
  "opcode_switch 0x21 value value2 s = Some (3, LD_rr_nn Reg_H Reg_L value value2 s)"
  "opcode_switch 0x31 value value2 s = Some (3, LD_SP_nn value value2 s)"
  "opcode_switch 0xF9 value value2 s = Some (1, LD_SP_nn (reg_L s) (reg_H s) s)"
  "opcode_switch 0xF8 value value2 s = Some (2, LD_rr_word Reg_H Reg_L (reg_SP s + ucast value) s)"
  "opcode_switch 0x08 value value2 s = Some (3, LD_addr_nn (address value2 value) (reg_SP s) s)"
  "opcode_switch 0xF5 value value2 s = Some (1, PUSH (reg_A s) (reg_F s) s)"
  "opcode_switch 0xC5 value value2 s = Some (1, PUSH (reg_B s) (reg_C s) s)"
  "opcode_switch 0xD5 value value2 s = Some (1, PUSH (reg_D s) (reg_E s) s)"
  "opcode_switch 0xE5 value value2 s = Some (1, PUSH (reg_H s) (reg_L s) s)"
  "opcode_switch 0xF1 value value2 s = map_option (Pair 1) (POP Reg_A Reg_F s)"
  "opcode_switch 0xC1 value value2 s = map_option (Pair 1) (POP Reg_B Reg_C s)"
  "opcode_switch 0xD1 value value2 s = map_option (Pair 1) (POP Reg_D Reg_E s)"
  "opcode_switch 0xE1 value value2 s = map_option (Pair 1) (POP Reg_H Reg_L s)"
  "opcode_switch 0x87 value value2 s = Some (1, ADD Reg_A (reg_A s) s)"
  "opcode_switch 0x80 value value2 s = Some (1, ADD Reg_A (reg_B s) s)"
  "opcode_switch 0x81 value value2 s = Some (1, ADD Reg_A (reg_C s) s)"
  "opcode_switch 0x82 value value2 s = Some (1, ADD Reg_A (reg_D s) s)"
  "opcode_switch 0x83 value value2 s = Some (1, ADD Reg_A (reg_E s) s)"
  "opcode_switch 0x84 value value2 s = Some (1, ADD Reg_A (reg_H s) s)"
  "opcode_switch 0x85 value value2 s = Some (1, ADD Reg_A (reg_L s) s)"
  "opcode_switch 0x86 value value2 s = map_option (Pair 1) (ADD_addr Reg_A (address (reg_H s) (reg_L s)) s)"
  "opcode_switch 0xC6 value value2 s = Some (2, ADD Reg_A value s)"
  "opcode_switch 0x8F value value2 s = Some (1, ADDC Reg_A (reg_A s) s)"
  "opcode_switch 0x88 value value2 s = Some (1, ADDC Reg_A (reg_B s) s)"
  "opcode_switch 0x89 value value2 s = Some (1, ADDC Reg_A (reg_C s) s)"
  "opcode_switch 0x8A value value2 s = Some (1, ADDC Reg_A (reg_D s) s)"
  "opcode_switch 0x8B value value2 s = Some (1, ADDC Reg_A (reg_E s) s)"
  "opcode_switch 0x8C value value2 s = Some (1, ADDC Reg_A (reg_H s) s)"
  "opcode_switch 0x8D value value2 s = Some (1, ADDC Reg_A (reg_L s) s)"
  "opcode_switch 0x8E value value2 s = map_option (Pair 1) (ADDC_addr Reg_A (address (reg_H s) (reg_L s)) s)"
  "opcode_switch 0xCE value value2 s = Some (2, ADDC Reg_A value s)"
  "opcode_switch 0x97 value value2 s = Some (1, SUB Reg_A (reg_A s) s)"
  "opcode_switch 0x90 value value2 s = Some (1, SUB Reg_A (reg_B s) s)"
  "opcode_switch 0x91 value value2 s = Some (1, SUB Reg_A (reg_C s) s)"
  "opcode_switch 0x92 value value2 s = Some (1, SUB Reg_A (reg_D s) s)"
  "opcode_switch 0x93 value value2 s = Some (1, SUB Reg_A (reg_E s) s)"
  "opcode_switch 0x94 value value2 s = Some (1, SUB Reg_A (reg_H s) s)"
  "opcode_switch 0x95 value value2 s = Some (1, SUB Reg_A (reg_L s) s)"
  "opcode_switch 0x96 value value2 s = map_option (Pair 1) (SUB_addr Reg_A (address (reg_H s) (reg_L s)) s)"
  "opcode_switch 0xD6 value value2 s = Some (2, SUB Reg_A value s)"
  "opcode_switch 0x9F value value2 s = Some (1, SUBC Reg_A (reg_A s) s)"
  "opcode_switch 0x98 value value2 s = Some (1, SUBC Reg_A (reg_B s) s)"
  "opcode_switch 0x99 value value2 s = Some (1, SUBC Reg_A (reg_C s) s)"
  "opcode_switch 0x9A value value2 s = Some (1, SUBC Reg_A (reg_D s) s)"
  "opcode_switch 0x9B value value2 s = Some (1, SUBC Reg_A (reg_E s) s)"
  "opcode_switch 0x9C value value2 s = Some (1, SUBC Reg_A (reg_H s) s)"
  "opcode_switch 0x9D value value2 s = Some (1, SUBC Reg_A (reg_L s) s)"
  "opcode_switch 0x9E value value2 s = map_option (Pair 1) (SUBC_addr Reg_A (address (reg_H s) (reg_L s)) s)"
  "opcode_switch 0xA7 value value2 s = Some (1, AND_op Reg_A (reg_A s) s)"
  "opcode_switch 0xA0 value value2 s = Some (1, AND_op Reg_A (reg_B s) s)"
  "opcode_switch 0xA1 value value2 s = Some (1, AND_op Reg_A (reg_C s) s)"
  "opcode_switch 0xA2 value value2 s = Some (1, AND_op Reg_A (reg_D s) s)"
  "opcode_switch 0xA3 value value2 s = Some (1, AND_op Reg_A (reg_E s) s)"
  "opcode_switch 0xA4 value value2 s = Some (1, AND_op Reg_A (reg_H s) s)"
  "opcode_switch 0xA5 value value2 s = Some (1, AND_op Reg_A (reg_L s) s)"
  "opcode_switch 0xA6 value value2 s = map_option (Pair 1) (AND_op_addr Reg_A (address (reg_H s) (reg_L s)) s)"
  "opcode_switch 0xE6 value value2 s = Some (2, AND_op Reg_A value s)"
  "opcode_switch 0xB7 value value2 s = Some (1, OR_op Reg_A (reg_A s) s)"
  "opcode_switch 0xB0 value value2 s = Some (1, OR_op Reg_A (reg_B s) s)"
  "opcode_switch 0xB1 value value2 s = Some (1, OR_op Reg_A (reg_C s) s)"
  "opcode_switch 0xB2 value value2 s = Some (1, OR_op Reg_A (reg_D s) s)"
  "opcode_switch 0xB3 value value2 s = Some (1, OR_op Reg_A (reg_E s) s)"
  "opcode_switch 0xB4 value value2 s = Some (1, OR_op Reg_A (reg_H s) s)"
  "opcode_switch 0xB5 value value2 s = Some (1, OR_op Reg_A (reg_L s) s)"
  "opcode_switch 0xB6 value value2 s = map_option (Pair 1) (OR_op_addr Reg_A (address (reg_H s) (reg_L s)) s)"
  "opcode_switch 0xF6 value value2 s = Some (2, OR_op Reg_A value s)"
  "opcode_switch 0xAF value value2 s = Some (1, XOR_op Reg_A (reg_A s) s)"
  "opcode_switch 0xA8 value value2 s = Some (1, XOR_op Reg_A (reg_B s) s)"
  "opcode_switch 0xA9 value value2 s = Some (1, XOR_op Reg_A (reg_C s) s)"
  "opcode_switch 0xAA value value2 s = Some (1, XOR_op Reg_A (reg_D s) s)"
  "opcode_switch 0xAB value value2 s = Some (1, XOR_op Reg_A (reg_E s) s)"
  "opcode_switch 0xAC value value2 s = Some (1, XOR_op Reg_A (reg_H s) s)"
  "opcode_switch 0xAD value value2 s = Some (1, XOR_op Reg_A (reg_L s) s)"
  "opcode_switch 0xAE value value2 s = map_option (Pair 1) (XOR_op_addr Reg_A (address (reg_H s) (reg_L s)) s)"
  "opcode_switch 0xEE value value2 s = Some (2, XOR_op Reg_A value s)"
  "opcode_switch 0xBF value value2 s = Some (1, CP Reg_A (reg_A s) s)"
  "opcode_switch 0xB8 value value2 s = Some (1, CP Reg_A (reg_B s) s)"
  "opcode_switch 0xB9 value value2 s = Some (1, CP Reg_A (reg_C s) s)"
  "opcode_switch 0xBA value value2 s = Some (1, CP Reg_A (reg_D s) s)"
  "opcode_switch 0xBB value value2 s = Some (1, CP Reg_A (reg_E s) s)"
  "opcode_switch 0xBC value value2 s = Some (1, CP Reg_A (reg_H s) s)"
  "opcode_switch 0xBD value value2 s = Some (1, CP Reg_A (reg_L s) s)"
  "opcode_switch 0xBE value value2 s = map_option (Pair 1) (CP_addr Reg_A (address (reg_H s) (reg_L s)) s)"
  "opcode_switch 0xFE value value2 s = Some (2, CP Reg_A value s)"
  "opcode_switch 0x3C value value2 s = Some (1, INC Reg_A s)"
  "opcode_switch 0x04 value value2 s = Some (1, INC Reg_B s)"
  "opcode_switch 0x0C value value2 s = Some (1, INC Reg_C s)"
  "opcode_switch 0x14 value value2 s = Some (1, INC Reg_D s)"
  "opcode_switch 0x1C value value2 s = Some (1, INC Reg_E s)"
  "opcode_switch 0x24 value value2 s = Some (1, INC Reg_H s)"
  "opcode_switch 0x2C value value2 s = Some (1, INC Reg_L s)"
  "opcode_switch 0x34 value value2 s = map_option (Pair 1) (INC_addr (address (reg_H s) (reg_L s)) s)"
  "opcode_switch 0x3D value value2 s = Some (1, DEC Reg_A s)"
  "opcode_switch 0x05 value value2 s = Some (1, DEC Reg_B s)"
  "opcode_switch 0x0D value value2 s = Some (1, DEC Reg_C s)"
  "opcode_switch 0x15 value value2 s = Some (1, DEC Reg_D s)"
  "opcode_switch 0x1D value value2 s = Some (1, DEC Reg_E s)"
  "opcode_switch 0x25 value value2 s = Some (1, DEC Reg_H s)"
  "opcode_switch 0x2D value value2 s = Some (1, DEC Reg_L s)"
  "opcode_switch 0x35 value value2 s = map_option (Pair 1) (DEC_addr (address (reg_H s) (reg_L s)) s)"
  by (simp_all add: opcode_switch_def)

lemma switch_default:
  assumes "code \<notin> {0x06, 0x0E, 0x16, 0x1E, 0x26, 0x2E, 0x7F, 0x78, 0x79, 0x7A, 0x7B, 0x7C, 0x7D, 0x7E,
      0x40, 0x41, 0x42, 0x43, 0x44, 0x45, 0x46, 0x48, 0x49, 0x4A, 0x4B, 0x4C, 0x4D, 0x4E,
      0x50, 0x51, 0x52, 0x53, 0x54, 0x55, 0x56, 0x58, 0x59, 0x5A, 0x5B, 0x5C, 0x5D, 0x5E,
      0x60, 0x61, 0x62, 0x63, 0x64, 0x65, 0x66, 0x68, 0x69, 0x6A, 0x6B, 0x6C, 0x6D, 0x6E,
      0x70, 0x71, 0x72, 0x73, 0x74, 0x75, 0x36, 0x0A, 0x1A, 0xFA, 0x47, 0x4F, 0x57, 0x5F,
      0x67, 0x6F, 0x02, 0x12, 0x77, 0xEA, 0xF2, 0xE2, 0x3A, 0x32, 0x2A, 0x22, 0xE0, 0xF0,
      0x01, 0x11, 0x21, 0x31, 0xF9, 0xF8, 0x08, 0xF5, 0xC5, 0xD5, 0xE5, 0xF1, 0xC1, 0xD1,
      0xE1, 0x87, 0x80, 0x81, 0x82, 0x83, 0x84, 0x85, 0x86, 0xC6, 0x8F, 0x88, 0x89, 0x8A,
      0x8B, 0x8C, 0x8D, 0x8E, 0xCE, 0x97, 0x90, 0x91, 0x92, 0x93, 0x94, 0x95, 0x96, 0xD6,
      0x9F, 0x98, 0x99, 0x9A, 0x9B, 0x9C, 0x9D, 0x9E, 0xA7, 0xA0, 0xA1, 0xA2, 0xA3, 0xA4,
      0xA5, 0xA6, 0xE6, 0xB7, 0xB0, 0xB1, 0xB2, 0xB3, 0xB4, 0xB5, 0xB6, 0xF6, 0xAF, 0xA8,
      0xA9, 0xAA, 0xAB, 0xAC, 0xAD, 0xAE, 0xEE, 0xBF, 0xB8, 0xB9, 0xBA, 0xBB, 0xBC, 0xBD,
      0xBE, 0xFE, 0x3C, 0x04, 0x0C, 0x14, 0x1C, 0x24, 0x2C, 0x34, 0x3D, 0x05, 0x0D, 0x15,
      0x1D, 0x25, 0x2D, 0x35}"
  shows "opcode_switch code v v2 s = Some (1, s)"
  using assms by (simp add: opcode_switch_def)

lemma switch_keeps_HL:
  assumes "code \<notin> {0x26, 0x2E, 0x60, 0x61, 0x62, 0x63, 0x64, 0x65, 0x66, 0x67, 0x68, 0x69, 0x6A, 0x6B,
                  0x6C, 0x6D, 0x6E, 0x6F, 0x3A, 0x32, 0x2A, 0x22, 0x21, 0xF8, 0xE1, 0x24, 0x2C, 0x25, 0x2D}"
    and "opcode_switch code v v2 s = Some (n, s')"
  shows "reg_H s' = reg_H s \<and> reg_L s' = reg_L s"
proof (cases "code \<in> {0x06, 0x0E, 0x16, 0x1E, 0x26, 0x2E, 0x7F, 0x78, 0x79, 0x7A, 0x7B, 0x7C, 0x7D, 0x7E,
      0x40, 0x41, 0x42, 0x43, 0x44, 0x45, 0x46, 0x48, 0x49, 0x4A, 0x4B, 0x4C, 0x4D, 0x4E,
      0x50, 0x51, 0x52, 0x53, 0x54, 0x55, 0x56, 0x58, 0x59, 0x5A, 0x5B, 0x5C, 0x5D, 0x5E,
      0x60, 0x61, 0x62, 0x63, 0x64, 0x65, 0x66, 0x68, 0x69, 0x6A, 0x6B, 0x6C, 0x6D, 0x6E,
      0x70, 0x71, 0x72, 0x73, 0x74, 0x75, 0x36, 0x0A, 0x1A, 0xFA, 0x47, 0x4F, 0x57, 0x5F,
      0x67, 0x6F, 0x02, 0x12, 0x77, 0xEA, 0xF2, 0xE2, 0x3A, 0x32, 0x2A, 0x22, 0xE0, 0xF0,
      0x01, 0x11, 0x21, 0x31, 0xF9, 0xF8, 0x08, 0xF5, 0xC5, 0xD5, 0xE5, 0xF1, 0xC1, 0xD1,
      0xE1, 0x87, 0x80, 0x81, 0x82, 0x83, 0x84, 0x85, 0x86, 0xC6, 0x8F, 0x88, 0x89, 0x8A,
      0x8B, 0x8C, 0x8D, 0x8E, 0xCE, 0x97, 0x90, 0x91, 0x92, 0x93, 0x94, 0x95, 0x96, 0xD6,
      0x9F, 0x98, 0x99, 0x9A, 0x9B, 0x9C, 0x9D, 0x9E, 0xA7, 0xA0, 0xA1, 0xA2, 0xA3, 0xA4,
      0xA5, 0xA6, 0xE6, 0xB7, 0xB0, 0xB1, 0xB2, 0xB3, 0xB4, 0xB5, 0xB6, 0xF6, 0xAF, 0xA8,
      0xA9, 0xAA, 0xAB, 0xAC, 0xAD, 0xAE, 0xEE, 0xBF, 0xB8, 0xB9, 0xBA, 0xBB, 0xBC, 0xBD,
      0xBE, 0xFE, 0x3C, 0x04, 0x0C, 0x14, 0x1C, 0x24, 0x2C, 0x34, 0x3D, 0x05, 0x0D, 0x15,
      0x1D, 0x25, 0x2D, 0x35}")
  case True
  then show ?thesis using assms
    apply (elim insertE emptyE)
    apply (simp_all only: )
    apply (auto simp add: opcode_switch_simps read_op_defs Let_def case_prod_beta split: option.splits)
    done
next
  case False
  then have "opcode_switch code v v2 s = Some (1, s)" by (rule switch_default)
  with assms(2) show ?thesis by simp
qed

lemma parse_opcode_eq:
  "parse_opcode code s = opcode_switch code 200 200 (s\<lparr>reg_H := 0x00, reg_L := 0x05\<rparr>)"
  by (simp add: parse_opcode_def)

lemma address_0_5: "address 0x00 0x05 = 0x0005"
  by (simp add: address_def)

section \<open>C5: PUSH followed by POP\<close>












section \<open>C7: the divider\<close>

text \<open>\<open>update_timers\<close> calls \<open>update_divider\<close> first; what follows touches the timer counter,
  TIMA and IF, never DIV or the divider's accumulator, whatever TAC holds. A sum within the
  range of a 32-bit \<open>int\<close> is not changed by \<open>wrap_int\<close>.\<close>

lemma wrap_int_id:
  assumes "- 2147483648 \<le> x" and "x < 2147483648"
  shows "wrap_int x = x"
  using assms by (simp add: wrap_int_def)

lemma update_divider_fields:
  "divider_counter (update_divider cycles s) =
     (if wrap_int (divider_counter s + cycles) \<ge> 256 then 0
      else wrap_int (divider_counter s + cycles))"
  "MemoryRegister_get DIV (memory (update_divider cycles s)) =
     (if wrap_int (divider_counter s + cycles) \<ge> 256 then MemoryRegister_get DIV (memory s) + 1
      else MemoryRegister_get DIV (memory s))"
  by (simp_all add: update_divider_def Let_def MemoryRegister_defs)

text \<open>At the edge of the \<open>int\<close> range the sum wraps to a negative accumulator and DIV stays.\<close>

lemma update_divider_overflow:
  "divider_counter (update_divider 2147483647 (Emulator_init\<lparr>divider_counter := 255\<rparr>)) =
     - 2147483394 \<and>
   MemoryRegister_get DIV
     (memory (update_divider 2147483647 (Emulator_init\<lparr>divider_counter := 255\<rparr>))) =
     MemoryRegister_get DIV (memory Emulator_init)"
  by (simp add: update_divider_fields wrap_int_def)

lemma MemoryRegister_get_set:
  "MemoryRegister_get r (MemoryRegister_set r' v m) = (if r = r' then v else MemoryRegister_get r m)"
  by (simp add: MemoryRegister_get_def MemoryRegister_set_def)

lemma set_timer_frequency_fields:
  "divider_counter (set_timer_frequency s) = divider_counter s"
  "memory (set_timer_frequency s) = memory s"
  by (simp_all add: set_timer_frequency_def Let_def)

lemma DIV_distinct: "DIV \<noteq> TIMA" "DIV \<noteq> IF"
  by (simp_all add: register_defs)

lemma request_interrupt_fields:
  "divider_counter (request_interrupt i s) = divider_counter s"
  "r \<noteq> IF \<Longrightarrow>
     MemoryRegister_get r (memory (request_interrupt i s)) = MemoryRegister_get r (memory s)"
  by (simp_all add: request_interrupt_def MemoryRegister_defs)

lemma update_timers_divider:
  "divider_counter (update_timers cycles s) =
     (if wrap_int (divider_counter s + cycles) \<ge> 256 then 0
      else wrap_int (divider_counter s + cycles)) \<and>
   MemoryRegister_get DIV (memory (update_timers cycles s)) =
     (if wrap_int (divider_counter s + cycles) \<ge> 256 then MemoryRegister_get DIV (memory s) + 1
      else MemoryRegister_get DIV (memory s))"
proof -
  have "divider_counter (update_timers cycles s) = divider_counter (update_divider cycles s)"
    by (simp add: update_timers_def Let_def set_timer_frequency_fields request_interrupt_fields)
  moreover
  have "MemoryRegister_get DIV (memory (update_timers cycles s)) =
        MemoryRegister_get DIV (memory (update_divider cycles s))"
    by (simp add: update_timers_def Let_def set_timer_frequency_fields request_interrupt_fields
        MemoryRegister_get_set DIV_distinct)
  ultimately show ?thesis
    by (simp only: update_divider_fields)
qed

text \<open>
  C7. The claim is that DIV is incremented exactly once per 256 elapsed cycles, the accumulator
  decreasing by 256 at each increment so that the cycles beyond 256 carry over. In the code
  \<open>update_divider\<close> sets the accumulator to 0 when it reaches 256 (under the comment
  \<open>16384 Hz\<close>, the rate of one increment per 256 cycles), so the cycles beyond 256 are lost.
  From a fresh emulator, steps of 250, 12 and 250 cycles, 512 in all, leave DIV at 1, not 2, and
  the accumulator at 250, not 0; the step of 12 cycles taken at 250 leaves the accumulator at 0,
  not 6.
\<close>

theorem divider_loses_cycles_beyond_256:
  "divider_counter (fold update_timers [250, 12, 250] Emulator_init) = 250 \<and>
   MemoryRegister_get DIV (memory (fold update_timers [250, 12, 250] Emulator_init)) = 1 \<and>
   (250 + 12 + 250) div 256 = (2 :: int) \<and>
   divider_counter (update_timers 12 (Emulator_init\<lparr>divider_counter := 250\<rparr>)) = 0 \<and>
   250 + 12 - 256 = (6 :: int)"
proof -
  have i: "divider_counter Emulator_init = 0" "MemoryRegister_get DIV (memory Emulator_init) = 0"
    by (simp_all add: Emulator_init_def Memory_init_def MemoryRegister_defs register_defs)
  show ?thesis
    by (simp add: update_timers_divider i wrap_int_def)
qed

section \<open>C10: parse_opcode overwrites H and L\<close>

text \<open>
  C10. Every call of \<open>parse_opcode\<close>, whatever the opcode, stores 0x00 in H and 0x05 in L before
  it decodes. So the result of the call does not depend on the H and L the program had
  established; an opcode whose case does not itself write H or L leaves H = 0x00 and L = 0x05
  behind; and every (HL)-indirect instruction works on address 0x0005: the loads and the
  arithmetic read it, the stores, \<open>INC (HL)\<close> and \<open>DEC (HL)\<close> write it, and the loads and
  stores with increment or decrement use it before they step HL.
\<close>

theorem parse_opcode_overwrites_HL:
  "parse_opcode code (s\<lparr>reg_H := h, reg_L := l\<rparr>) = parse_opcode code s \<and>
   parse_opcode code s = opcode_switch code 200 200 (s\<lparr>reg_H := 0x00, reg_L := 0x05\<rparr>) \<and>
   (code \<notin> {0x26, 0x2E, 0x60, 0x61, 0x62, 0x63, 0x64, 0x65, 0x66, 0x67, 0x68, 0x69, 0x6A, 0x6B,
              0x6C, 0x6D, 0x6E, 0x6F, 0x3A, 0x32, 0x2A, 0x22, 0x21, 0xF8, 0xE1, 0x24, 0x2C, 0x25, 0x2D} \<longrightarrow>
    parse_opcode code s = Some (n, s') \<longrightarrow> reg_H s' = 0x00 \<and> reg_L s' = 0x05) \<and>
   ((c, f) \<in> set [(0x7E, LD_r_n Reg_A), (0x46, LD_r_n Reg_B), (0x4E, LD_r_n Reg_C),
                   (0x56, LD_r_n Reg_D), (0x5E, LD_r_n Reg_E), (0x66, LD_r_n Reg_H),
                   (0x6E, LD_r_n Reg_L), (0x86, ADD Reg_A), (0x8E, ADDC Reg_A), (0x96, SUB Reg_A),
                   (0x9E, SUBC Reg_A), (0xA6, AND_op Reg_A), (0xB6, OR_op Reg_A),
                   (0xAE, OR_op Reg_A), (0xBE, CP Reg_A)] \<longrightarrow>
    parse_opcode c s =
      map_option (\<lambda>v. (1, f v (s\<lparr>reg_H := 0x00, reg_L := 0x05\<rparr>))) (read (memory s) 0x0005)) \<and>
   ((c', r) \<in> set [(0x70, Reg_B), (0x71, Reg_C), (0x72, Reg_D), (0x73, Reg_E), (0x74, Reg_H),
                    (0x75, Reg_L), (0x77, Reg_A)] \<longrightarrow>
    parse_opcode c' s =
      Some (1, LD_addr_n 0x0005 (get_reg r (s\<lparr>reg_H := 0x00, reg_L := 0x05\<rparr>))
                 (s\<lparr>reg_H := 0x00, reg_L := 0x05\<rparr>))) \<and>
   parse_opcode 0x36 s = Some (2, LD_addr_n 0x0005 200 (s\<lparr>reg_H := 0x00, reg_L := 0x05\<rparr>)) \<and>
   parse_opcode 0x34 s = map_option (Pair 1) (INC_addr 0x0005 (s\<lparr>reg_H := 0x00, reg_L := 0x05\<rparr>)) \<and>
   parse_opcode 0x35 s = map_option (Pair 1) (DEC_addr 0x0005 (s\<lparr>reg_H := 0x00, reg_L := 0x05\<rparr>)) \<and>
   parse_opcode 0x3A s =
     map_option (\<lambda>t. (1, dec_reg_pair Reg_H Reg_L t))
       (LD_r_addr Reg_A 0x0005 (s\<lparr>reg_H := 0x00, reg_L := 0x05\<rparr>)) \<and>
   parse_opcode 0x2A s =
     map_option (\<lambda>t. (1, inc_reg_pair Reg_H Reg_L t))
       (LD_r_addr Reg_A 0x0005 (s\<lparr>reg_H := 0x00, reg_L := 0x05\<rparr>)) \<and>
   parse_opcode 0x32 s =
     Some (1, dec_reg_pair Reg_H Reg_L
                (LD_addr_n 0x0005 (reg_A s) (s\<lparr>reg_H := 0x00, reg_L := 0x05\<rparr>))) \<and>
   parse_opcode 0x22 s =
     Some (1, inc_reg_pair Reg_H Reg_L
                (LD_addr_n 0x0005 (reg_A s) (s\<lparr>reg_H := 0x00, reg_L := 0x05\<rparr>)))"
proof (intro conjI impI)
  show "parse_opcode code (s\<lparr>reg_H := h, reg_L := l\<rparr>) = parse_opcode code s"
    by (simp add: parse_opcode_def)
  show "parse_opcode code s = opcode_switch code 200 200 (s\<lparr>reg_H := 0x00, reg_L := 0x05\<rparr>)"
    by (rule parse_opcode_eq)
  show "reg_H s' = 0x00" "reg_L s' = 0x05"
    if "code \<notin> {0x26, 0x2E, 0x60, 0x61, 0x62, 0x63, 0x64, 0x65, 0x66, 0x67, 0x68, 0x69, 0x6A, 0x6B,
              0x6C, 0x6D, 0x6E, 0x6F, 0x3A, 0x32, 0x2A, 0x22, 0x21, 0xF8, 0xE1, 0x24, 0x2C, 0x25, 0x2D}"
      and "parse_opcode code s = Some (n, s')"
    using switch_keeps_HL[OF that(1) that(2)[unfolded parse_opcode_eq]] by simp_all
  show "parse_opcode c s =
      map_option (\<lambda>v. (1, f v (s\<lparr>reg_H := 0x00, reg_L := 0x05\<rparr>))) (read (memory s) 0x0005)"
    if "(c, f) \<in> set [(0x7E, LD_r_n Reg_A), (0x46, LD_r_n Reg_B), (0x4E, LD_r_n Reg_C),
                   (0x56, LD_r_n Reg_D), (0x5E, LD_r_n Reg_E), (0x66, LD_r_n Reg_H),
                   (0x6E, LD_r_n Reg_L), (0x86, ADD Reg_A), (0x8E, ADDC Reg_A), (0x96, SUB Reg_A),
                   (0x9E, SUBC Reg_A), (0xA6, AND_op Reg_A), (0xB6, OR_op Reg_A),
                   (0xAE, OR_op Reg_A), (0xBE, CP Reg_A)]"
    using that
    by (auto simp: parse_opcode_eq opcode_switch_simps address_0_5 read_op_defs LD_r_n_def
        split: option.split)
  show "parse_opcode c' s =
      Some (1, LD_addr_n 0x0005 (get_reg r (s\<lparr>reg_H := 0x00, reg_L := 0x05\<rparr>))
                 (s\<lparr>reg_H := 0x00, reg_L := 0x05\<rparr>))"
    if "(c', r) \<in> set [(0x70, Reg_B), (0x71, Reg_C), (0x72, Reg_D), (0x73, Reg_E), (0x74, Reg_H),
                    (0x75, Reg_L), (0x77, Reg_A)]"
    using that by (auto simp: parse_opcode_eq opcode_switch_simps address_0_5)
qed (simp_all add: parse_opcode_eq opcode_switch_simps address_0_5)

theorem parse_opcode_overwrites_HL_witness:
  "parse_opcode 0x7E (Emulator_init\<lparr>memory := Memory_init\<lparr>CART_ROM := [0, 0, 0, 0, 0, 0x99]\<rparr>,
                       reg_H := 0xC0, reg_L := 0x10\<rparr>) =
   parse_opcode 0x7E (Emulator_init\<lparr>memory := Memory_init\<lparr>CART_ROM := [0, 0, 0, 0, 0, 0x99]\<rparr>\<rparr>) \<and>
   (0x80 :: Opcode) \<notin> {0x26, 0x2E, 0x60, 0x61, 0x62, 0x63, 0x64, 0x65, 0x66, 0x67, 0x68, 0x69, 0x6A,
      0x6B, 0x6C, 0x6D, 0x6E, 0x6F, 0x3A, 0x32, 0x2A, 0x22, 0x21, 0xF8, 0xE1, 0x24, 0x2C, 0x25, 0x2D} \<and>
   map_option (\<lambda>(n, t). (reg_H t, reg_L t))
     (parse_opcode 0x80 (Emulator_init\<lparr>reg_H := 0xC0, reg_L := 0x10\<rparr>)) = Some (0x00, 0x05) \<and>
   map_option (\<lambda>(n, t). reg_A t)
     (parse_opcode 0x7E (Emulator_init\<lparr>memory := Memory_init\<lparr>CART_ROM := [0, 0, 0, 0, 0, 0x99]\<rparr>,
                          reg_H := 0xC0, reg_L := 0x10\<rparr>)) = Some 0x99 \<and>
   map_option (\<lambda>(n, t). read (memory t) 0xC010)
     (parse_opcode 0x70 (Emulator_init\<lparr>reg_B := 0x42, reg_H := 0xC0, reg_L := 0x10\<rparr>)) =
     Some (Some 0x00)"
proof -
  let ?m = "Memory_init\<lparr>CART_ROM := [0, 0, 0, 0, 0, 0x99]\<rparr>"
  let ?s = "Emulator_init\<lparr>memory := ?m\<rparr>"
  let ?u = "Emulator_init\<lparr>reg_H := 0xC0, reg_L := 0x10\<rparr>"
  let ?w = "Emulator_init\<lparr>reg_B := 0x42, reg_H := 0xC0, reg_L := 0x10\<rparr>"
  let ?W = "{0x26, 0x2E, 0x60, 0x61, 0x62, 0x63, 0x64, 0x65, 0x66, 0x67, 0x68, 0x69, 0x6A,
      0x6B, 0x6C, 0x6D, 0x6E, 0x6F, 0x3A, 0x32, 0x2A, 0x22, 0x21, 0xF8, 0xE1, 0x24, 0x2C, 0x25, 0x2D} :: Opcode set"
  have h1: "(0x80 :: Opcode) \<notin> ?W" by simp
  have h2: "parse_opcode 0x80 ?u = Some (1, ADD Reg_A (reg_B ?u) (?u\<lparr>reg_H := 0x00, reg_L := 0x05\<rparr>))"
    by (simp add: parse_opcode_eq opcode_switch_simps)
  have h3: "(0x7E, LD_r_n Reg_A) \<in> set [(0x7E, LD_r_n Reg_A), (0x46, LD_r_n Reg_B), (0x4E, LD_r_n Reg_C),
                   (0x56, LD_r_n Reg_D), (0x5E, LD_r_n Reg_E), (0x66, LD_r_n Reg_H),
                   (0x6E, LD_r_n Reg_L), (0x86, ADD Reg_A), (0x8E, ADDC Reg_A), (0x96, SUB Reg_A),
                   (0x9E, SUBC Reg_A), (0xA6, AND_op Reg_A), (0xB6, OR_op Reg_A),
                   (0xAE, OR_op Reg_A), (0xBE, CP Reg_A)]"
    by simp
  have h4: "(0x70, Reg_B) \<in> set [(0x70, Reg_B), (0x71, Reg_C), (0x72, Reg_D), (0x73, Reg_E), (0x74, Reg_H),
                    (0x75, Reg_L), (0x77, Reg_A)]"
    by simp
  have r: "read ?m 0x0005 = Some 0x99"
    by (simp add: read_def vector_at_def)
  note a = parse_opcode_overwrites_HL[where code = "0x7E" and s = ?s and h = "0xC0" and l = "0x10",
      THEN conjunct1]
  note b = parse_opcode_overwrites_HL[where code = "0x80" and s = ?u and n = 1
      and s' = "ADD Reg_A (reg_B ?u) (?u\<lparr>reg_H := 0x00, reg_L := 0x05\<rparr>)",
      THEN conjunct2, THEN conjunct2, THEN conjunct1, rule_format, OF h1 h2]
  note c = parse_opcode_overwrites_HL[where c = "0x7E" and f = "LD_r_n Reg_A"
      and s = "?s\<lparr>reg_H := 0xC0, reg_L := 0x10\<rparr>",
      THEN conjunct2, THEN conjunct2, THEN conjunct2, THEN conjunct1, rule_format, OF h3]
  note d = parse_opcode_overwrites_HL[where c' = "0x70" and r = Reg_B and s = ?w,
      THEN conjunct2, THEN conjunct2, THEN conjunct2, THEN conjunct2, THEN conjunct1,
      rule_format, OF h4]
  have e: "read (memory (LD_addr_n 0x0005 0x42 (?w\<lparr>reg_H := 0x00, reg_L := 0x05\<rparr>))) 0xC010 = Some 0x00"
    by (simp add: LD_addr_n_def write_mem_def read_def Emulator_init_def Memory_init_def)
  have g3: "map_option (\<lambda>(n, t). (reg_H t, reg_L t)) (parse_opcode 0x80 ?u) = Some (0x00, 0x05)"
    using b by (simp add: h2)
  have g4: "map_option (\<lambda>(n, t). reg_A t) (parse_opcode 0x7E (?s\<lparr>reg_H := 0xC0, reg_L := 0x10\<rparr>)) =
            Some 0x99"
    by (simp add: c r LD_r_n_def)
  have g5: "map_option (\<lambda>(n, t). read (memory t) 0xC010) (parse_opcode 0x70 ?w) = Some (Some 0x00)"
    using e by (simp add: d)
  from a h1 g3 g4 g5 show ?thesis
    by (intro conjI)
qed

section \<open>C1: fetching an instruction\<close>

text \<open>No case of the switch assigns \<open>reg_PC\<close>, and the length the switch yields is 1, 2 or 3,
  fixed by the opcode alone.\<close>

lemma switch_keeps_PC:
  assumes "opcode_switch code v v2 s = Some (n, s')"
  shows "reg_PC s' = reg_PC s \<and> n \<in> {1, 2, 3}"
proof (cases "code \<in> {0x06, 0x0E, 0x16, 0x1E, 0x26, 0x2E, 0x7F, 0x78, 0x79, 0x7A, 0x7B, 0x7C, 0x7D, 0x7E,
      0x40, 0x41, 0x42, 0x43, 0x44, 0x45, 0x46, 0x48, 0x49, 0x4A, 0x4B, 0x4C, 0x4D, 0x4E,
      0x50, 0x51, 0x52, 0x53, 0x54, 0x55, 0x56, 0x58, 0x59, 0x5A, 0x5B, 0x5C, 0x5D, 0x5E,
      0x60, 0x61, 0x62, 0x63, 0x64, 0x65, 0x66, 0x68, 0x69, 0x6A, 0x6B, 0x6C, 0x6D, 0x6E,
      0x70, 0x71, 0x72, 0x73, 0x74, 0x75, 0x36, 0x0A, 0x1A, 0xFA, 0x47, 0x4F, 0x57, 0x5F,
      0x67, 0x6F, 0x02, 0x12, 0x77, 0xEA, 0xF2, 0xE2, 0x3A, 0x32, 0x2A, 0x22, 0xE0, 0xF0,
      0x01, 0x11, 0x21, 0x31, 0xF9, 0xF8, 0x08, 0xF5, 0xC5, 0xD5, 0xE5, 0xF1, 0xC1, 0xD1,
      0xE1, 0x87, 0x80, 0x81, 0x82, 0x83, 0x84, 0x85, 0x86, 0xC6, 0x8F, 0x88, 0x89, 0x8A,
      0x8B, 0x8C, 0x8D, 0x8E, 0xCE, 0x97, 0x90, 0x91, 0x92, 0x93, 0x94, 0x95, 0x96, 0xD6,
      0x9F, 0x98, 0x99, 0x9A, 0x9B, 0x9C, 0x9D, 0x9E, 0xA7, 0xA0, 0xA1, 0xA2, 0xA3, 0xA4,
      0xA5, 0xA6, 0xE6, 0xB7, 0xB0, 0xB1, 0xB2, 0xB3, 0xB4, 0xB5, 0xB6, 0xF6, 0xAF, 0xA8,
      0xA9, 0xAA, 0xAB, 0xAC, 0xAD, 0xAE, 0xEE, 0xBF, 0xB8, 0xB9, 0xBA, 0xBB, 0xBC, 0xBD,
      0xBE, 0xFE, 0x3C, 0x04, 0x0C, 0x14, 0x1C, 0x24, 0x2C, 0x34, 0x3D, 0x05, 0x0D, 0x15,
      0x1D, 0x25, 0x2D, 0x35}")
  case True
  then show ?thesis using assms
    apply (elim insertE emptyE)
    apply (simp_all only: )
    apply (auto simp add: opcode_switch_simps read_op_defs Let_def case_prod_beta split: option.splits)
    done
next
  case False
  then have "opcode_switch code v v2 s = Some (1, s)" by (rule switch_default)
  with assms show ?thesis by simp
qed

lemma parse_opcode_keeps_PC:
  assumes "parse_opcode code s = Some (n, s')"
  shows "reg_PC s' = reg_PC s \<and> n \<in> {1, 2, 3}"
  using switch_keeps_PC[OF assms[unfolded parse_opcode_eq]] by simp

text \<open>
  C1. The claim is that the immediate operands of an instruction are read from memory at PC+1 and
  PC+2 and that PC is advanced by the instruction's length. In the code the operands are the
  locals \<open>value = 200\<close> and \<open>value2 = 200\<close>, \<open>Emulator::run\<close> drops the length
  \<open>parse_opcode\<close> returns, and nothing adds it to \<open>reg_PC\<close>. With the ROM bytes 0x06 0x12
  (\<open>LD B,0x12\<close>) at address 0 and PC = 0, one pass of the loop body leaves B = 200 (0xC8), not
  0x12, and PC = 0, not 2.
\<close>

theorem run_body_ignores_operand_and_keeps_PC:
  "map_option (\<lambda>s. (reg_B s, reg_PC s))
     (run_body (Emulator_init\<lparr>memory := Memory_init\<lparr>CART_ROM := [0x06, 0x12]\<rparr>\<rparr>)) =
   Some (0xC8, 0x0000)"
  by (simp add: run_body_def parse_opcode_eq opcode_switch_simps LD_r_n_def
      update_timers_def update_divider_def get_timer_frequency_def set_timer_frequency_def
      timer_enabled_def update_scanline_def set_lcd_status_def is_lcd_enabled_def
      request_interrupt_def draw_scanline_def do_interrupts_def Emulator_init_def
      Memory_init_def MemoryRegister_defs register_defs bit_defs interrupt_defs read_def
      vector_at_def wrap_int_def Let_def)

section \<open>C2: interrupt dispatch\<close>

lemma service_interrupt_eq:
  "service_interrupt i s =
    s\<lparr>interrupt_master_enable := False,
      memory := write_mem (write_mem (MemoryRegister_clear_bit IF i (memory s))
                  (reg_SP s - 1) (high_byte (reg_PC s))) (reg_SP s - 2) (low_byte (reg_PC s)),
      reg_SP := reg_SP s - 2,
      reg_PC := (if i = 0 then 0x40 else if i = 1 then 0x48 else if i = 2 then 0x50
                 else if i = 4 then 0x60 else reg_PC s)\<rparr>"
  by (simp add: service_interrupt_def Let_def interrupt_defs)

text \<open>
  C2. The claim is that exactly one interrupt is serviced, the lowest pending and enabled bit, and
  that PC is set to its vector, 0x58 for Serial. In the code the switch of
  \<open>service_interrupt\<close> has no case for Serial, and the loop of \<open>do_interrupts\<close> neither stops
  after a service nor tests the master flag again. With IME set, PC = 0x1234, SP = 0xFFFE:
  IF = IE = 0x08 (Serial only) clears IME and IF and pushes 0x12, 0x34, but leaves PC = 0x1234;
  IF = IE = 0x03 (V-Blank and LCDC) services both, so SP drops by four, the V-Blank vector 0x0040
  is pushed as a return address, both IF bits are cleared and PC ends at 0x48.
\<close>

theorem do_interrupts_serial_and_double_service:
  "(let s = do_interrupts (Emulator_init\<lparr>interrupt_master_enable := True, reg_PC := 0x1234,
        memory := MemoryRegister_set IF 0x08 (MemoryRegister_set IE 0x08 Memory_init)\<rparr>)
    in (interrupt_master_enable s, MemoryRegister_get IF (memory s), reg_SP s,
        read (memory s) 0xFFFD, read (memory s) 0xFFFC, reg_PC s))
   = (False, 0x00, 0xFFFC, Some 0x12, Some 0x34, 0x1234) \<and>
   (let s = do_interrupts (Emulator_init\<lparr>interrupt_master_enable := True, reg_PC := 0x1234,
        memory := MemoryRegister_set IF 0x03 (MemoryRegister_set IE 0x03 Memory_init)\<rparr>)
    in (interrupt_master_enable s, MemoryRegister_get IF (memory s), reg_SP s,
        read (memory s) 0xFFFD, read (memory s) 0xFFFC, read (memory s) 0xFFFB, read (memory s) 0xFFFA, reg_PC s))
   = (False, 0x00, 0xFFFA, Some 0x12, Some 0x34, Some 0x00, Some 0x40, 0x48)"
  by (simp add: do_interrupts_def do_interrupts_body_def service_interrupt_eq Emulator_init_def
      Memory_init_def MemoryRegister_defs register_defs bit_defs read_def write_mem_def
      high_byte_def low_byte_def Let_def)

section \<open>C3: ADD and the zero flag\<close>

text \<open>\<open>CPU::ADD\<close> tests the untruncated \<open>int result\<close> against zero, so Z is set only when both
  operands are zero.\<close>

lemma flag_bit:
  "(x AND FLAG_ZERO \<noteq> 0) = bit x 7" "(x AND FLAG_SUB \<noteq> 0) = bit x 6"
  "(x AND FLAG_HALF_CARRY \<noteq> 0) = bit x 5" "(x AND FLAG_CARRY \<noteq> 0) = bit x 4"
  using and_exp_eq_0_iff_not_bit[of x 7] and_exp_eq_0_iff_not_bit[of x 6]
    and_exp_eq_0_iff_not_bit[of x 5] and_exp_eq_0_iff_not_bit[of x 4]
  by (simp_all add: flag_defs)

lemma set_flag_bits:
  "bit (reg_F (set_flag FLAG_ZERO b s)) 7 = b"
  "bit (reg_F (set_flag FLAG_SUB b s)) 7 = bit (reg_F s) 7"
  "bit (reg_F (set_flag FLAG_HALF_CARRY b s)) 7 = bit (reg_F s) 7"
  "bit (reg_F (set_flag FLAG_CARRY b s)) 7 = bit (reg_F s) 7"
  by (simp_all add: set_flag_def flag_defs bit_simps)

lemma ADD_zero_flag:
  "(reg_F (ADD Reg_A v s) AND FLAG_ZERO \<noteq> 0) = (reg_A s = 0 \<and> v = 0)"
proof -
  have "(uint (reg_A s) + uint v = 0) = (uint (reg_A s) = 0 \<and> uint v = 0)"
    using uint_nonnegative[of "reg_A s"] uint_nonnegative[of v] by arith
  then have "(uint (reg_A s) + uint v = 0) = (reg_A s = 0 \<and> v = 0)"
    by (simp only: uint_0_iff)
  then show ?thesis
    by (simp add: flag_bit ADD_def Let_def set_flag_bits)
qed

text \<open>
  C3. The claim is that ADD sets Z exactly when the truncated 8-bit result is zero, so that
  A = 0x3A, B = 0xC6, opcode 0x80 gives A = 0x00 with Z = 1, N = 0, H = 1, C = 1. The code gives
  A = 0x00, N = 0, H = 1, C = 1 and Z = 0: the sum is 0x100, which is not zero before truncation.
\<close>

theorem ADD_A_B_leaves_zero_flag_clear:
  "map_option (\<lambda>(opbytes, s). (reg_A s, reg_F s AND FLAG_ZERO \<noteq> 0, reg_F s AND FLAG_SUB \<noteq> 0,
        reg_F s AND FLAG_HALF_CARRY \<noteq> 0, reg_F s AND FLAG_CARRY \<noteq> 0))
     (parse_opcode 0x80 (Emulator_init\<lparr>reg_A := 0x3A, reg_B := 0xC6\<rparr>)) =
   Some (0x00, False, False, True, True)"
  by (simp add: parse_opcode_eq opcode_switch_simps Emulator_init_def ADD_def set_flag_def
      flag_defs)

section \<open>C4: SBC\<close>

text \<open>\<open>CPU::SUBC\<close> reads the carry, calls \<open>SUB\<close>, which sets all four flags from \<open>A\<close> and \<open>v\<close>
  alone, and then subtracts the carry from the target: the value is \<open>A - v - c\<close>, the flags are
  those of \<open>A - v\<close>.\<close>

lemma SUBC_ignores_carry:
  "reg_F (SUBC Reg_A v s) = reg_F (SUB Reg_A v s)"
  "reg_A (SUBC Reg_A v s) = reg_A s - v - (if reg_F s AND FLAG_CARRY \<noteq> 0 then 1 else 0)"
  by (simp_all add: SUBC_def SUB_def Let_def set_flag_def)

text \<open>
  C4. The claim is that SBC sets Z, H and C from \<open>A - v - c\<close>. With A = 0x01, v = B = 0x01 and
  carry-in 1 (opcode 0x98) the result is 0xFF, for which the claim gives Z = 0, H = 1, C = 1; the
  code leaves A = 0xFF with Z = 1, N = 1, H = 0, C = 0.
\<close>

theorem SBC_flags_ignore_carry_in:
  "map_option (\<lambda>(opbytes, s). (reg_A s, reg_F s AND FLAG_ZERO \<noteq> 0, reg_F s AND FLAG_SUB \<noteq> 0,
        reg_F s AND FLAG_HALF_CARRY \<noteq> 0, reg_F s AND FLAG_CARRY \<noteq> 0))
     (parse_opcode 0x98 (Emulator_init\<lparr>reg_A := 0x01, reg_B := 0x01, reg_F := 0x10\<rparr>)) =
   Some (0xFF, True, True, False, False)"
  by (simp add: parse_opcode_eq opcode_switch_simps Emulator_init_def SUBC_def SUB_def
      set_flag_def flag_defs)

section \<open>C6: the range of LY\<close>

text \<open>With the LCD enabled \<open>set_lcd_status\<close> leaves LY, LCDC and the scanline counter alone.
  \<open>update_scanline\<close> stores \<open>current_scanline + 1\<close> in LY and then compares the old value,
  \<open>current_scanline\<close>, with 153: from LY = 153 the store of 154 stands.\<close>

lemma set_lcd_status_enabled:
  assumes "is_lcd_enabled s"
  shows "MemoryRegister_get LY (memory (set_lcd_status s)) = MemoryRegister_get LY (memory s)"
    and "is_lcd_enabled (set_lcd_status s)"
    and "scanline_counter (set_lcd_status s) = scanline_counter s"
  using assms
  by (simp_all add: set_lcd_status_def Let_def case_prod_beta request_interrupt_def
      is_lcd_enabled_def MemoryRegister_defs register_defs interrupt_defs)

lemma update_scanline_past_153:
  assumes "is_lcd_enabled s" and "MemoryRegister_get LY (memory s) = 153"
    and "wrap_int (scanline_counter s - cycles) \<le> 0"
  shows "MemoryRegister_get LY (memory (update_scanline cycles s)) = 154"
  using assms set_lcd_status_enabled[OF assms(1)]
  by (simp add: update_scanline_def Let_def MemoryRegister_get_set)

text \<open>
  C6. The claim is that LY only holds values in 0..153 and wraps to 0 when it passes 153. In the
  code, with the LCD enabled (LCDC = 0x91), LY = 153 and four cycles left on the scanline counter,
  a step of four cycles leaves LY = 154; only the scanline boundary after that one clears it.
\<close>

theorem LY_reaches_154:
  "MemoryRegister_get LY (memory (update_scanline 4
     (Emulator_init\<lparr>scanline_counter := 4, memory := MemoryRegister_set LY 153 Memory_init\<rparr>))) = 154 \<and>
   MemoryRegister_get LY (memory (update_scanline 456 (update_scanline 4
     (Emulator_init\<lparr>scanline_counter := 4, memory := MemoryRegister_set LY 153 Memory_init\<rparr>)))) = 0"
  by (simp add: update_scanline_def set_lcd_status_def is_lcd_enabled_def Emulator_init_def
      Memory_init_def MemoryRegister_defs register_defs bit_defs request_interrupt_def
      interrupt_defs draw_scanline_def wrap_int_def Let_def)

end
